theory Spec2Isabelle
  imports Complex_Main
begin

section \<open>Floating-point values\<close>

text \<open>
  The arrays of the program hold IEEE-754 binary64 numbers. The model keeps the special
  values (signed zero, the two infinities, not-a-number) and their arithmetic, and
  computes on finite values exactly: rounding, overflow and underflow are not modelled.
  \<open>Fin 0\<close> is positive zero, \<open>NZero\<close> is negative zero, \<open>Fin r\<close> with \<open>r \<noteq> 0\<close>
  the finite number \<open>r\<close>. The general theorems below use of this arithmetic the
  comparisons, the signs, the special values and \<open>v / v = 1\<close> for a finite nonzero
  \<open>v\<close>, which binary64 shares; the value of a finite sum, product or quotient is
  computed in the examples only.
\<close>

datatype float64 = Fin real | NZero | PInf | NInf | NaN

fun val :: "float64 \<Rightarrow> real" where
  "val (Fin r) = r"
| "val NZero = 0"
| "val PInf = 0"
| "val NInf = 0"
| "val NaN = 0"

fun sign_bit :: "float64 \<Rightarrow> bool" where
  "sign_bit (Fin r) = (r < 0)"
| "sign_bit NZero = True"
| "sign_bit PInf = False"
| "sign_bit NInf = True"
| "sign_bit NaN = False"

fun isnan :: "float64 \<Rightarrow> bool" where
  "isnan NaN = True"
| "isnan (Fin r) = False"
| "isnan NZero = False"
| "isnan PInf = False"
| "isnan NInf = False"

fun isinf :: "float64 \<Rightarrow> bool" where
  "isinf PInf = True"
| "isinf NInf = True"
| "isinf (Fin r) = False"
| "isinf NZero = False"
| "isinf NaN = False"

fun isfinite :: "float64 \<Rightarrow> bool" where
  "isfinite (Fin r) = True"
| "isfinite NZero = True"
| "isfinite PInf = False"
| "isfinite NInf = False"
| "isfinite NaN = False"

fun is_zero :: "float64 \<Rightarrow> bool" where
  "is_zero (Fin r) = (r = 0)"
| "is_zero NZero = True"
| "is_zero PInf = False"
| "is_zero NInf = False"
| "is_zero NaN = False"

definition zero_of :: "bool \<Rightarrow> float64" where
  "zero_of s = (if s then NZero else Fin 0)"

definition inf_of :: "bool \<Rightarrow> float64" where
  "inf_of s = (if s then NInf else PInf)"

definition fin_of :: "bool \<Rightarrow> real \<Rightarrow> float64" where
  "fin_of s r = (if r = 0 then zero_of s else Fin r)"

fun fneg :: "float64 \<Rightarrow> float64" where
  "fneg (Fin r) = (if r = 0 then NZero else Fin (- r))"
| "fneg NZero = Fin 0"
| "fneg PInf = NInf"
| "fneg NInf = PInf"
| "fneg NaN = NaN"

fun fabs :: "float64 \<Rightarrow> float64" where
  "fabs (Fin r) = Fin \<bar>r\<bar>"
| "fabs NZero = Fin 0"
| "fabs PInf = PInf"
| "fabs NInf = PInf"
| "fabs NaN = NaN"

text \<open>
  Addition: a sum of finite values that is zero is positive zero, except that the sum
  of two negative zeros is negative zero; opposite infinities give not-a-number.
\<close>

definition fadd :: "float64 \<Rightarrow> float64 \<Rightarrow> float64" where
  "fadd a b =
     (if isnan a \<or> isnan b then NaN
      else if isinf a then (if isinf b \<and> b \<noteq> a then NaN else a)
      else if isinf b then b
      else if val a + val b = 0 then zero_of (a = NZero \<and> b = NZero)
      else Fin (val a + val b))"

definition fsub :: "float64 \<Rightarrow> float64 \<Rightarrow> float64" where
  "fsub a b = fadd a (fneg b)"

definition fmul :: "float64 \<Rightarrow> float64 \<Rightarrow> float64" where
  "fmul a b =
     (if isnan a \<or> isnan b then NaN
      else if isinf a \<or> isinf b then
        (if is_zero a \<or> is_zero b then NaN else inf_of (sign_bit a \<noteq> sign_bit b))
      else fin_of (sign_bit a \<noteq> sign_bit b) (val a * val b))"

text \<open>
  Division never raises on arrays: a nonzero value over zero is an infinity, zero over
  zero and infinity over infinity are not-a-number.
\<close>

definition fdiv :: "float64 \<Rightarrow> float64 \<Rightarrow> float64" where
  "fdiv a b =
     (if isnan a \<or> isnan b then NaN
      else if isinf a then (if isinf b then NaN else inf_of (sign_bit a \<noteq> sign_bit b))
      else if isinf b then zero_of (sign_bit a \<noteq> sign_bit b)
      else if is_zero b then
        (if is_zero a then NaN else inf_of (sign_bit a \<noteq> sign_bit b))
      else fin_of (sign_bit a \<noteq> sign_bit b) (val a / val b))"

text \<open>Comparisons: every comparison with not-a-number is false; the zeros are equal.\<close>

definition feq :: "float64 \<Rightarrow> float64 \<Rightarrow> bool" where
  "feq a b =
     (if isnan a \<or> isnan b then False
      else if isfinite a \<and> isfinite b then val a = val b
      else a = b)"

definition fless :: "float64 \<Rightarrow> float64 \<Rightarrow> bool" where
  "fless a b =
     (if isnan a \<or> isnan b then False
      else if a = NInf then b \<noteq> NInf
      else if b = PInf then a \<noteq> PInf
      else if a = PInf \<or> b = NInf then False
      else val a < val b)"

definition fle :: "float64 \<Rightarrow> float64 \<Rightarrow> bool" where
  "fle a b = (fless a b \<or> feq a b)"

text \<open>
  \<open>numpy.isclose(a, b)\<close> with its default tolerances \<open>rtol = 1e-05\<close>, \<open>atol = 1e-08\<close>:
  finite operands are compared within \<open>atol + rtol * |b|\<close>, any other pair by equality.
\<close>

definition rtol :: float64 where
  "rtol = Fin (1 / 100000)"

definition atol :: float64 where
  "atol = Fin (1 / 100000000)"

definition isclose :: "float64 \<Rightarrow> float64 \<Rightarrow> bool" where
  "isclose a b =
     (if isfinite a \<and> isfinite b
      then fle (fabs (fsub a b)) (fadd atol (fmul rtol (fabs b)))
      else feq a b)"

section \<open>Arrays, errors and the object store\<close>

text \<open>
  A numpy array of floats: its shape and its elements in row-major order. An array is
  well formed when the number of elements is the product of the shape; a
  one-dimensional array has a shape of one entry.
\<close>

record ndarray =
  shape :: "nat list"
  data :: "float64 list"

definition ndim :: "ndarray \<Rightarrow> nat" where
  "ndim a = length (shape a)"

definition wf_array :: "ndarray \<Rightarrow> bool" where
  "wf_array a = (length (data a) = prod_list (shape a))"

text \<open>
  The exceptions of the program and of the library calls it makes. The failed
  \<open>assert\<close> of the two fit methods is \<open>AssertionError\<close> (the specification's
  InvalidInputShape); \<open>RuntimeError\<close> is the "must be fitted first" error of
  \<open>transform_cdf\<close> (the specification's NotFittedError).
\<close>

datatype error =
  AssertionError | RuntimeError | ValueError | IndexError | TypeError | NotImplementedError

text \<open>
  Arrays are objects: the caller and the method share them by reference. The store is
  the list of allocated arrays, a reference is an index into it, and a new array is
  appended. The state also holds the \<open>_cdf_map\<close> attribute of the \<open>InversePIT\<close>
  instance: absent, or the fitted interpolant.
\<close>

record state =
  heap :: "ndarray list"
  cdf_map :: "(float64 \<Rightarrow> float64) option"

definition alloc :: "state \<Rightarrow> ndarray \<Rightarrow> nat \<times> state" where
  "alloc s a = (length (heap s), s\<lparr>heap := heap s @ [a]\<rparr>)"

definition InversePIT :: "ndarray list \<Rightarrow> state" where
  "InversePIT h = \<lparr>heap = h, cdf_map = None\<rparr>"

section \<open>The numerical library\<close>

text \<open>
  The program calls \<open>scipy.integrate.cumulative_trapezoid\<close>,
  \<open>scipy.interpolate.interp1d\<close> and \<open>numpy.gradient\<close>. Their behaviour on
  one-dimensional arrays and for linear interpolation is written out below. What they do
  elsewhere (an interpolation kind other than \<open>linear\<close>, the integration of arrays that
  are not both one-dimensional) is a parameter of the model.
\<close>

record library =
  interp_other :: "string \<Rightarrow> float64 list \<Rightarrow> float64 list \<Rightarrow> error + (float64 \<Rightarrow> float64)"
  trapezoid_nd :: "ndarray \<Rightarrow> ndarray \<Rightarrow> error + ndarray"

subsection \<open>Indexing and in-place division\<close>

text \<open>
  \<open>a[-1]\<close>: the last item along the first axis. It is an IndexError on a
  zero-dimensional array and on an empty first axis. For a one-dimensional array the
  result is a scalar (a zero-dimensional array).
\<close>

definition getitem_last :: "ndarray \<Rightarrow> error + ndarray" where
  "getitem_last a =
     (case shape a of
        [] \<Rightarrow> Inl IndexError
      | n # rest \<Rightarrow>
          if n = 0 then Inl IndexError
          else Inr \<lparr>shape = rest, data = drop ((n - 1) * prod_list rest) (data a)\<rparr>)"

definition item :: "ndarray \<Rightarrow> float64" where
  "item v = hd (data v)"

text \<open>
  \<open>a / v\<close> where \<open>v\<close> is \<open>a[-1]\<close>: the trailing axes of \<open>a\<close> are those of \<open>v\<close>, so
  element \<open>i\<close> of \<open>a\<close> is divided by element \<open>i mod size v\<close> of \<open>v\<close>.
\<close>

definition true_divide :: "ndarray \<Rightarrow> ndarray \<Rightarrow> ndarray" where
  "true_divide a v =
     \<lparr>shape = shape a,
      data = map (\<lambda>i. fdiv (data a ! i) (data v ! (i mod length (data v))))
               [0..<length (data a)]\<rparr>"

text \<open>The statement \<open>cdf /= cdf[-1]\<close>: the array behind the reference is overwritten.\<close>

definition itruediv_last :: "state \<Rightarrow> nat \<Rightarrow> (error + unit) \<times> state" where
  "itruediv_last s r =
     (case getitem_last (heap s ! r) of
        Inl e \<Rightarrow> (Inl e, s)
      | Inr v \<Rightarrow> (Inr (), s\<lparr>heap := (heap s)[r := true_divide (heap s ! r) v]\<rparr>))"

subsection \<open>Cumulative trapezoidal integration\<close>

fun diff :: "float64 list \<Rightarrow> float64 list" where
  "diff (a # b # r) = fsub b a # diff (b # r)"
| "diff [a] = []"
| "diff [] = []"

fun cumsum_from :: "float64 \<Rightarrow> float64 list \<Rightarrow> float64 list" where
  "cumsum_from acc [] = []"
| "cumsum_from acc (t # ts) = fadd acc t # cumsum_from (fadd acc t) ts"

fun cumsum :: "float64 list \<Rightarrow> float64 list" where
  "cumsum [] = []"
| "cumsum (t # ts) = t # cumsum_from t ts"

text \<open>
  \<open>cumulative_trapezoid(y, x, initial=0)\<close>. For one-dimensional \<open>y\<close> and \<open>x\<close>: an
  empty \<open>y\<close> and an \<open>x\<close> of another length are ValueErrors; otherwise the result has the
  shape of \<open>y\<close>, starts with \<open>0.0\<close> and continues with the running sums of
  \<open>d * (y[1:] + y[:-1]) / 2.0\<close>, \<open>d = diff(x)\<close>.
\<close>

definition cumulative_trapezoid :: "library \<Rightarrow> ndarray \<Rightarrow> ndarray \<Rightarrow> error + ndarray" where
  "cumulative_trapezoid lib y x =
     (if ndim y = 1 \<and> ndim x = 1 then
        (if hd (shape y) = 0 then Inl ValueError
         else if length (diff (data x)) \<noteq> hd (shape y) - 1 then Inl ValueError
         else Inr \<lparr>shape = shape y,
                   data = Fin 0 #
                     cumsum (map (\<lambda>t. fdiv t (Fin 2))
                       (map2 fmul (diff (data x))
                          (map2 fadd (tl (data y)) (butlast (data y)))))\<rparr>)
      else trapezoid_nd lib y x)"

subsection \<open>Interpolation\<close>

text \<open>
  The order in which numpy sorts floats: not-a-number comes last. \<open>interp1d\<close> sorts
  its knots with a stable sort (\<open>argsort\<close>, mergesort) and reorders the values with
  them.
\<close>

definition np_lt :: "float64 \<Rightarrow> float64 \<Rightarrow> bool" where
  "np_lt a b = (fless a b \<or> (isnan b \<and> \<not> isnan a))"

fun insort_knot :: "float64 \<times> float64 \<Rightarrow> (float64 \<times> float64) list \<Rightarrow> (float64 \<times> float64) list" where
  "insort_knot p [] = [p]"
| "insort_knot p (q # qs) =
     (if np_lt (fst q) (fst p) then q # insort_knot p qs else p # q # qs)"

definition argsort_knots :: "(float64 \<times> float64) list \<Rightarrow> (float64 \<times> float64) list" where
  "argsort_knots ps = foldr insort_knot ps []"

text \<open>\<open>searchsorted(xs, q)\<close>: the leftmost place where \<open>q\<close> can go into the sorted \<open>xs\<close>.\<close>

definition searchsorted :: "float64 list \<Rightarrow> float64 \<Rightarrow> nat" where
  "searchsorted xs q = length (takeWhile (\<lambda>k. np_lt k q) xs)"

text \<open>
  The linear interpolant with extrapolation (\<open>fill_value="extrapolate"\<close>): the
  insertion index is clipped to \<open>1 .. n - 1\<close> (to \<open>n - 1\<close> when that is below 1), the
  knots \<open>lo = index - 1\<close> and \<open>hi = index\<close> give the slope, and no bound is checked.
  With a single knot \<open>lo\<close> is \<open>-1\<close>, Python's last element.
\<close>

definition call_linear :: "float64 list \<Rightarrow> float64 list \<Rightarrow> float64 \<Rightarrow> float64" where
  "call_linear xs ys q =
     (let n = length xs;
          hi = min (n - 1) (max (searchsorted xs q) 1);
          lo = (if hi = 0 then n - 1 else hi - 1);
          slope = fdiv (fsub (ys ! hi) (ys ! lo)) (fsub (xs ! hi) (xs ! lo))
      in fadd (fmul slope (fsub q (xs ! lo))) (ys ! lo))"

text \<open>
  \<open>interp1d(x, y, kind=kind, bounds_error=False, fill_value="extrapolate")\<close> on
  one-dimensional arrays. Arrays of different lengths and empty arrays are ValueErrors.
\<close>

definition interp1d :: "library \<Rightarrow> float64 list \<Rightarrow> float64 list \<Rightarrow> string \<Rightarrow> error + (float64 \<Rightarrow> float64)" where
  "interp1d lib x y kind =
     (if kind = ''linear'' then
        (if length x \<noteq> length y then Inl ValueError
         else if length x < 1 then Inl ValueError
         else Inr (call_linear (map fst (argsort_knots (zip x y)))
                               (map snd (argsort_knots (zip x y)))))
      else interp_other lib kind x y)"

text \<open>Calling the interpolant on an array evaluates it at every element.\<close>

definition interp_call :: "(float64 \<Rightarrow> float64) \<Rightarrow> ndarray \<Rightarrow> ndarray" where
  "interp_call f a = \<lparr>shape = shape a, data = map f (data a)\<rparr>"

subsection \<open>Numerical gradient\<close>

text \<open>
  \<open>numpy.gradient(f, x, edge_order=2)\<close> for a one-dimensional \<open>f\<close> with coordinates
  \<open>x\<close>. The spacing is \<open>diff(x)\<close>; when all its entries equal the first one it is
  reduced to that scalar. Reading the first entry of an empty spacing is an IndexError;
  fewer than three samples are a ValueError. Second-order differences are taken in the
  interior and at both edges. The program calls it with floating-point errors ignored,
  so the divisions below never raise.
\<close>

datatype spacing = Uniform float64 | Nonuniform "float64 list"

fun interior :: "spacing \<Rightarrow> float64 list \<Rightarrow> nat \<Rightarrow> float64" where
  "interior (Uniform h) f i = fdiv (fsub (f ! (i + 1)) (f ! (i - 1))) (fmul (Fin 2) h)"
| "interior (Nonuniform d) f i =
     (let dx1 = d ! (i - 1);
          dx2 = d ! i;
          a = fdiv (fneg dx2) (fmul dx1 (fadd dx1 dx2));
          b = fdiv (fsub dx2 dx1) (fmul dx1 dx2);
          c = fdiv dx1 (fmul dx2 (fadd dx1 dx2))
      in fadd (fadd (fmul a (f ! (i - 1))) (fmul b (f ! i))) (fmul c (f ! (i + 1))))"

fun first_edge :: "spacing \<Rightarrow> float64 list \<Rightarrow> float64" where
  "first_edge (Uniform h) f =
     (let a = fdiv (Fin (- 3 / 2)) h;
          b = fdiv (Fin 2) h;
          c = fdiv (Fin (- 1 / 2)) h
      in fadd (fadd (fmul a (f ! 0)) (fmul b (f ! 1))) (fmul c (f ! 2)))"
| "first_edge (Nonuniform d) f =
     (let dx1 = d ! 0;
          dx2 = d ! 1;
          a = fdiv (fneg (fadd (fmul (Fin 2) dx1) dx2)) (fmul dx1 (fadd dx1 dx2));
          b = fdiv (fadd dx1 dx2) (fmul dx1 dx2);
          c = fdiv (fneg dx1) (fmul dx2 (fadd dx1 dx2))
      in fadd (fadd (fmul a (f ! 0)) (fmul b (f ! 1))) (fmul c (f ! 2)))"

fun last_edge :: "spacing \<Rightarrow> float64 list \<Rightarrow> float64" where
  "last_edge (Uniform h) f =
     (let n = length f;
          a = fdiv (Fin (1 / 2)) h;
          b = fdiv (Fin (- 2)) h;
          c = fdiv (Fin (3 / 2)) h
      in fadd (fadd (fmul a (f ! (n - 3))) (fmul b (f ! (n - 2)))) (fmul c (f ! (n - 1))))"
| "last_edge (Nonuniform d) f =
     (let n = length f;
          dx1 = d ! (n - 3);
          dx2 = d ! (n - 2);
          a = fdiv dx2 (fmul dx1 (fadd dx1 dx2));
          b = fdiv (fneg (fadd dx2 dx1)) (fmul dx1 dx2);
          c = fdiv (fadd (fmul (Fin 2) dx2) dx1) (fmul dx2 (fadd dx1 dx2))
      in fadd (fadd (fmul a (f ! (n - 3))) (fmul b (f ! (n - 2)))) (fmul c (f ! (n - 1))))"

definition gradient_entry :: "spacing \<Rightarrow> float64 list \<Rightarrow> nat \<Rightarrow> float64" where
  "gradient_entry sp f i =
     (if i = 0 then first_edge sp f
      else if i = length f - 1 then last_edge sp f
      else interior sp f i)"

definition get_spacing :: "float64 list \<Rightarrow> spacing" where
  "get_spacing d = (if list_all (\<lambda>e. feq e (hd d)) d then Uniform (hd d) else Nonuniform d)"

text \<open>
  An \<open>f\<close> of two or more dimensions with a single coordinate array is an invalid number
  of arguments (TypeError). A zero-dimensional \<open>f\<close> does not reach this call: the
  program has indexed it with \<open>[-1]\<close> before.
\<close>

definition gradient :: "ndarray \<Rightarrow> ndarray \<Rightarrow> error + ndarray" where
  "gradient f x =
     (if ndim f = 1 then
        (if ndim x \<noteq> 1 then Inl ValueError
         else if length (data x) \<noteq> length (data f) then Inl ValueError
         else if diff (data x) = [] then Inl IndexError
         else if length (data f) < 3 then Inl ValueError
         else Inr \<lparr>shape = shape f,
                   data = map (gradient_entry (get_spacing (diff (data x))) (data f))
                            [0..<length (data f)]\<rparr>)
      else Inl TypeError)"

subsection \<open>Floating-point conditions\<close>

text \<open>
  numpy reports two conditions of the arithmetic modelled here: an invalid operation,
  when an operation makes not-a-number from operands that are numbers (\<open>0 / 0\<close>,
  \<open>inf - inf\<close>, \<open>0 * inf\<close>), and a division by zero, when a finite nonzero number is
  divided by zero. Not-a-number operands pass quietly. (Overflow and underflow, the two
  other conditions, do not occur in exact arithmetic.) What becomes of a signalled
  condition is set by \<open>numpy.errstate\<close>: with \<open>warn\<close>, the default, it is reported as
  a RuntimeWarning, with \<open>ignore\<close> it is dropped.

  To say which conditions a computation signals, the arithmetic of
  \<open>numpy.gradient\<close> is written a second time as expressions: \<open>eval\<close> gives the
  value, \<open>raised\<close> the conditions signalled on the way.
\<close>

datatype fp_error = DivideByZero | Invalid

datatype err_handling = Ignore | Warn

definition reported :: "err_handling \<Rightarrow> fp_error set \<Rightarrow> fp_error set" where
  "reported h conditions = (case h of Ignore \<Rightarrow> {} | Warn \<Rightarrow> conditions)"

datatype expr =
  Val float64 | Neg expr | Add expr expr | Sub expr expr | Mul expr expr | Div expr expr

fun eval :: "expr \<Rightarrow> float64" where
  "eval (Val v) = v"
| "eval (Neg a) = fneg (eval a)"
| "eval (Add a b) = fadd (eval a) (eval b)"
| "eval (Sub a b) = fsub (eval a) (eval b)"
| "eval (Mul a b) = fmul (eval a) (eval b)"
| "eval (Div a b) = fdiv (eval a) (eval b)"

definition invalid_op :: "float64 \<Rightarrow> float64 \<Rightarrow> float64 \<Rightarrow> fp_error set" where
  "invalid_op a b r = (if \<not> isnan a \<and> \<not> isnan b \<and> isnan r then {Invalid} else {})"

definition zero_divide :: "float64 \<Rightarrow> float64 \<Rightarrow> fp_error set" where
  "zero_divide a b = (if isfinite a \<and> \<not> is_zero a \<and> is_zero b then {DivideByZero} else {})"

fun raised :: "expr \<Rightarrow> fp_error set" where
  "raised (Val v) = {}"
| "raised (Neg a) = raised a"
| "raised (Add a b) = raised a \<union> raised b \<union> invalid_op (eval a) (eval b) (eval (Add a b))"
| "raised (Sub a b) = raised a \<union> raised b \<union> invalid_op (eval a) (eval b) (eval (Sub a b))"
| "raised (Mul a b) = raised a \<union> raised b \<union> invalid_op (eval a) (eval b) (eval (Mul a b))"
| "raised (Div a b) = raised a \<union> raised b \<union> invalid_op (eval a) (eval b) (eval (Div a b)) \<union>
     zero_divide (eval a) (eval b)"

fun interior_expr :: "spacing \<Rightarrow> float64 list \<Rightarrow> nat \<Rightarrow> expr" where
  "interior_expr (Uniform h) f i =
     Div (Sub (Val (f ! (i + 1))) (Val (f ! (i - 1)))) (Mul (Val (Fin 2)) (Val h))"
| "interior_expr (Nonuniform d) f i =
     (let dx1 = Val (d ! (i - 1));
          dx2 = Val (d ! i);
          a = Div (Neg dx2) (Mul dx1 (Add dx1 dx2));
          b = Div (Sub dx2 dx1) (Mul dx1 dx2);
          c = Div dx1 (Mul dx2 (Add dx1 dx2))
      in Add (Add (Mul a (Val (f ! (i - 1)))) (Mul b (Val (f ! i)))) (Mul c (Val (f ! (i + 1)))))"

fun first_edge_expr :: "spacing \<Rightarrow> float64 list \<Rightarrow> expr" where
  "first_edge_expr (Uniform h) f =
     (let a = Div (Val (Fin (- 3 / 2))) (Val h);
          b = Div (Val (Fin 2)) (Val h);
          c = Div (Val (Fin (- 1 / 2))) (Val h)
      in Add (Add (Mul a (Val (f ! 0))) (Mul b (Val (f ! 1)))) (Mul c (Val (f ! 2))))"
| "first_edge_expr (Nonuniform d) f =
     (let dx1 = Val (d ! 0);
          dx2 = Val (d ! 1);
          a = Div (Neg (Add (Mul (Val (Fin 2)) dx1) dx2)) (Mul dx1 (Add dx1 dx2));
          b = Div (Add dx1 dx2) (Mul dx1 dx2);
          c = Div (Neg dx1) (Mul dx2 (Add dx1 dx2))
      in Add (Add (Mul a (Val (f ! 0))) (Mul b (Val (f ! 1)))) (Mul c (Val (f ! 2))))"

fun last_edge_expr :: "spacing \<Rightarrow> float64 list \<Rightarrow> expr" where
  "last_edge_expr (Uniform h) f =
     (let n = length f;
          a = Div (Val (Fin (1 / 2))) (Val h);
          b = Div (Val (Fin (- 2))) (Val h);
          c = Div (Val (Fin (3 / 2))) (Val h)
      in Add (Add (Mul a (Val (f ! (n - 3)))) (Mul b (Val (f ! (n - 2)))))
             (Mul c (Val (f ! (n - 1)))))"
| "last_edge_expr (Nonuniform d) f =
     (let n = length f;
          dx1 = Val (d ! (n - 3));
          dx2 = Val (d ! (n - 2));
          a = Div dx2 (Mul dx1 (Add dx1 dx2));
          b = Div (Neg (Add dx2 dx1)) (Mul dx1 dx2);
          c = Div (Add (Mul (Val (Fin 2)) dx2) dx1) (Mul dx2 (Add dx1 dx2))
      in Add (Add (Mul a (Val (f ! (n - 3)))) (Mul b (Val (f ! (n - 2)))))
             (Mul c (Val (f ! (n - 1)))))"

definition gradient_entry_expr :: "spacing \<Rightarrow> float64 list \<Rightarrow> nat \<Rightarrow> expr" where
  "gradient_entry_expr sp f i =
     (if i = 0 then first_edge_expr sp f
      else if i = length f - 1 then last_edge_expr sp f
      else interior_expr sp f i)"

text \<open>
  The conditions signalled by a call \<open>numpy.gradient(f, x, edge_order=2)\<close> that
  returns: those of the subtractions of \<open>diff(x)\<close> and those of every entry of the
  result.
\<close>

definition gradient_raised :: "ndarray \<Rightarrow> ndarray \<Rightarrow> fp_error set" where
  "gradient_raised f x =
     (\<Union>i \<in> {0..<length (data x) - 1}. raised (Sub (Val (data x ! (i + 1))) (Val (data x ! i)))) \<union>
     (\<Union>i \<in> {0..<length (data f)}.
        raised (gradient_entry_expr (get_spacing (diff (data x))) (data f) i))"

section \<open>The InversePIT class\<close>

text \<open>
  Each method takes the state and the references of its array arguments and returns
  its result, or the exception raised, together with the state it leaves.
\<close>

text \<open>
  \<open>transform_cdf(x, cdf)\<close>: RuntimeError when nothing is fitted; otherwise the new
  coordinates \<open>self._cdf_map(cdf)\<close> are a new array, and the returned pair is that array
  and the \<open>cdf\<close> object that was passed in.
\<close>

definition transform_cdf :: "state \<Rightarrow> nat \<Rightarrow> nat \<Rightarrow> (error + nat \<times> nat) \<times> state" where
  "transform_cdf s x cdf =
     (case cdf_map s of
        None \<Rightarrow> (Inl RuntimeError, s)
      | Some f \<Rightarrow>
          (let (x', s1) = alloc s (interp_call f (heap s ! cdf))
           in (Inr (x', cdf), s1)))"

text \<open>
  \<open>transform_pdf(x, pdf)\<close>: integrate to a new array \<open>cdf\<close>, divide it in place by its
  last value, transform it, and differentiate the result along the new coordinates.
\<close>

definition transform_pdf :: "library \<Rightarrow> state \<Rightarrow> nat \<Rightarrow> nat \<Rightarrow> (error + nat \<times> nat) \<times> state" where
  "transform_pdf lib s x pdf =
     (case cumulative_trapezoid lib (heap s ! pdf) (heap s ! x) of
        Inl e \<Rightarrow> (Inl e, s)
      | Inr c \<Rightarrow>
          (let (cdf, s1) = alloc s c in
           case itruediv_last s1 cdf of
             (Inl e, s2) \<Rightarrow> (Inl e, s2)
           | (Inr u, s2) \<Rightarrow>
               (case transform_cdf s2 x cdf of
                  (Inl e, s3) \<Rightarrow> (Inl e, s3)
                | (Inr (x', cdf'), s3) \<Rightarrow>
                    (case gradient (heap s3 ! cdf') (heap s3 ! x') of
                       Inl e \<Rightarrow> (Inl e, s3)
                     | Inr g \<Rightarrow>
                         (let (pdf', s4) = alloc s3 g in (Inr (x', pdf'), s4))))))"

text \<open>
  The differentiation of \<open>transform_pdf\<close> runs inside
  \<open>with numpy.errstate(all="ignore")\<close>: of the conditions that the gradient of \<open>cdf\<close>
  along \<open>x\<close> signals, this is what the block reports.
\<close>

definition differentiation_reports :: "ndarray \<Rightarrow> ndarray \<Rightarrow> fp_error set" where
  "differentiation_reports cdf x = reported Ignore (gradient_raised cdf x)"

text \<open>
  \<open>fit_from_cdf(x, cdf, interp_kind)\<close>: the assertion on the shapes, the optional
  in-place normalisation of the caller's \<open>cdf\<close>, then the interpolant of \<open>x\<close> over
  \<open>cdf\<close> is stored. The arrays are read from the store after the division, as the
  program reads them.
\<close>

definition fit_from_cdf :: "library \<Rightarrow> state \<Rightarrow> nat \<Rightarrow> nat \<Rightarrow> string \<Rightarrow> (error + unit) \<times> state" where
  "fit_from_cdf lib s x cdf interp_kind =
     (if \<not> (ndim (heap s ! x) = 1 \<and> shape (heap s ! x) = shape (heap s ! cdf))
      then (Inl AssertionError, s)
      else
        (case getitem_last (heap s ! cdf) of
           Inl e \<Rightarrow> (Inl e, s)
         | Inr v \<Rightarrow>
             (case (if \<not> isclose (item v) (Fin 1) then itruediv_last s cdf else (Inr (), s)) of
                (Inl e, s1) \<Rightarrow> (Inl e, s1)
              | (Inr u, s1) \<Rightarrow>
                  (case interp1d lib (data (heap s1 ! cdf)) (data (heap s1 ! x)) interp_kind of
                     Inl e \<Rightarrow> (Inl e, s1)
                   | Inr f \<Rightarrow> (Inr (), s1\<lparr>cdf_map := Some f\<rparr>)))))"

text \<open>
  \<open>fit_from_pdf(x, pdf, interp_kind)\<close>: the same assertion, the integral as a new
  array divided in place by its last value, then \<open>fit_from_cdf\<close> on it.
\<close>

definition fit_from_pdf :: "library \<Rightarrow> state \<Rightarrow> nat \<Rightarrow> nat \<Rightarrow> string \<Rightarrow> (error + unit) \<times> state" where
  "fit_from_pdf lib s x pdf interp_kind =
     (if \<not> (ndim (heap s ! x) = 1 \<and> shape (heap s ! x) = shape (heap s ! pdf))
      then (Inl AssertionError, s)
      else
        (case cumulative_trapezoid lib (heap s ! pdf) (heap s ! x) of
           Inl e \<Rightarrow> (Inl e, s)
         | Inr c \<Rightarrow>
             (let (cdf, s1) = alloc s c in
              case itruediv_last s1 cdf of
                (Inl e, s2) \<Rightarrow> (Inl e, s2)
              | (Inr u, s2) \<Rightarrow> fit_from_cdf lib s2 x cdf interp_kind)))"

section \<open>Concrete inputs\<close>

text \<open>
  For the examples: a library that offers linear interpolation and one-dimensional
  integration only, and one-dimensional arrays of finite values.
\<close>

definition linear_only :: library where
  "linear_only =
     \<lparr>interp_other = (\<lambda>k x y. Inl NotImplementedError),
      trapezoid_nd = (\<lambda>y x. Inl ValueError)\<rparr>"

definition array1d :: "real list \<Rightarrow> ndarray" where
  "array1d rs = \<lparr>shape = [length rs], data = map Fin rs\<rparr>"

text \<open>
  The state after fitting from the samples \<open>x = [0, 1, 2]\<close>, \<open>cdf = [0, 0.5, 1]\<close>
  (that \<open>fit_from_cdf\<close> produces it is lemma \<open>fit_example\<close> below); a third array
  of two entries is in the store as well.
\<close>

definition example_fitted :: state where
  "example_fitted =
     \<lparr>heap = [array1d [0, 1, 2], array1d [0, 1 / 2, 1], array1d [5, 6]],
      cdf_map = Some (call_linear [Fin 0, Fin (1 / 2), Fin 1] [Fin 0, Fin 1, Fin 2])\<rparr>"

section \<open>The normalised cumulative integral, as specified\<close>

text \<open>
  The specification describes the CDF computed from a PDF sample by sample: the value
  at the first sample is 0, the value at sample \<open>k\<close> is the sum, from left to right, of
  the areas of the first \<open>k\<close> trapezoids, and every value is then divided by the final
  one. The result has the shape of the PDF.
\<close>

definition trapezoid :: "float64 list \<Rightarrow> float64 list \<Rightarrow> nat \<Rightarrow> float64" where
  "trapezoid x y i =
     fdiv (fmul (fsub (x ! (i + 1)) (x ! i)) (fadd (y ! (i + 1)) (y ! i))) (Fin 2)"

fun sum_to :: "(nat \<Rightarrow> float64) \<Rightarrow> nat \<Rightarrow> float64" where
  "sum_to a 0 = a 0"
| "sum_to a (Suc k) = fadd (sum_to a k) (a (Suc k))"

definition integral_at :: "float64 list \<Rightarrow> float64 list \<Rightarrow> nat \<Rightarrow> float64" where
  "integral_at x y k = (if k = 0 then Fin 0 else sum_to (trapezoid x y) (k - 1))"

definition spec_normalized_cdf :: "ndarray \<Rightarrow> ndarray \<Rightarrow> ndarray" where
  "spec_normalized_cdf x pdf =
     \<lparr>shape = shape pdf,
      data = map (\<lambda>k. fdiv (integral_at (data x) (data pdf) k)
                           (integral_at (data x) (data pdf) (length (data pdf) - 1)))
               [0..<length (data pdf)]\<rparr>"

text \<open>
  The state after fitting from \<open>x = [0, 1, 1, 2]\<close>, \<open>cdf = [0, 0.25, 0.75, 1]\<close>, a
  fiducial whose inverse CDF is flat between 0.25 and 0.75 (lemma \<open>fit_flat_example\<close>
  below); the store also holds the samples \<open>x = [0, 1, 2, 3]\<close>, \<open>pdf = [1, 1, 1, 1]\<close>
  of a test distribution.
\<close>

definition example_flat :: state where
  "example_flat =
     \<lparr>heap = [array1d [0, 1, 1, 2], array1d [0, 1 / 4, 3 / 4, 1],
              array1d [0, 1, 2, 3], array1d [1, 1, 1, 1]],
      cdf_map = Some (call_linear [Fin 0, Fin (1 / 4), Fin (3 / 4), Fin 1]
                                  [Fin 0, Fin 1, Fin 1, Fin 2])\<rparr>"


section \<open>Evaluation rules\<close>

lemmas float_defs = fadd_def fsub_def fmul_def fdiv_def feq_def fless_def fle_def isclose_def
  rtol_def atol_def zero_of_def inf_of_def fin_of_def np_lt_def

lemmas lib_defs = getitem_last_def item_def true_divide_def itruediv_last_def
  cumulative_trapezoid_def argsort_knots_def searchsorted_def call_linear_def interp1d_def
  interp_call_def gradient_entry_def get_spacing_def gradient_def ndim_def alloc_def
  InversePIT_def array1d_def linear_only_def

lemmas class_defs = transform_cdf_def transform_pdf_def fit_from_cdf_def fit_from_pdf_def

lemma upt_3: "[0..<3] = [0, 1, 2]"
  by (simp add: upt_rec)

section \<open>Arithmetic on finite values\<close>

lemma fadd_Fin: "fadd (Fin a) (Fin b) = Fin (a + b)"
  by (simp add: fadd_def zero_of_def)

lemma fadd_NZero: "fadd (Fin a) NZero = Fin a" "fadd NZero (Fin a) = Fin a"
  by (simp_all add: fadd_def zero_of_def)

lemma fsub_Fin: "fsub (Fin a) (Fin b) = Fin (a - b)"
  by (simp add: fsub_def fadd_def zero_of_def)

lemma fmul_Fin:
  "fmul (Fin a) (Fin b) = (if a * b = 0 \<and> (a < 0) \<noteq> (b < 0) then NZero else Fin (a * b))"
  by (auto simp: fmul_def fin_of_def zero_of_def)

lemma fmul_NZero:
  "fmul NZero (Fin b) = (if b < 0 then Fin 0 else NZero)"
  "fmul (Fin a) NZero = (if a < 0 then Fin 0 else NZero)"
  by (simp_all add: fmul_def fin_of_def zero_of_def)

lemma fdiv_Fin:
  "b \<noteq> 0 \<Longrightarrow>
   fdiv (Fin a) (Fin b) = (if a = 0 \<and> (a < 0) \<noteq> (b < 0) then NZero else Fin (a / b))"
  by (auto simp: fdiv_def fin_of_def zero_of_def)

lemma feq_Fin: "feq (Fin a) (Fin b) = (a = b)"
  by (simp add: feq_def)

lemma fless_Fin: "fless (Fin a) (Fin b) = (a < b)"
  by (simp add: fless_def)

lemma np_lt_Fin: "np_lt (Fin a) (Fin b) = (a < b)"
  by (simp add: np_lt_def fless_def)

lemmas fin_eval = fadd_Fin fadd_NZero fsub_Fin fmul_Fin fmul_NZero fdiv_Fin feq_Fin fless_Fin
  np_lt_Fin

section \<open>The coordinate argument of transform_cdf\<close>

text \<open>
  C8. \<open>transform_cdf\<close> never reads its \<open>x\<close> argument: for any state (fitted or not),
  any \<open>cdf\<close> and any two \<open>x\<close> arguments, the two calls give the same result (the same
  exception, or the same returned pair) and leave the same state.
\<close>

theorem transform_cdf_ignores_x:
  "transform_cdf s x1 cdf = transform_cdf s x2 cdf"
  by (simp add: transform_cdf_def)

section \<open>Basic facts about the library model\<close>

lemma length_diff: "length (diff xs) = length xs - 1"
  by (induction xs rule: diff.induct) simp_all

lemma length_cumsum_from: "length (cumsum_from a ts) = length ts"
  by (induction ts arbitrary: a) simp_all

lemma length_cumsum: "length (cumsum ts) = length ts"
  by (cases ts) (simp_all add: length_cumsum_from)

lemma wf_1d: "wf_array a \<Longrightarrow> ndim a = 1 \<Longrightarrow> shape a = [length (data a)]"
  by (cases "shape a") (simp_all add: wf_array_def ndim_def)

text \<open>Integrating one-dimensional arrays of one shape succeeds and keeps the shape.\<close>

lemma cumulative_trapezoid_1d:
  assumes "ndim x = 1" "shape x = shape y" "wf_array x" "wf_array y" "data y \<noteq> []"
  shows "\<exists>c. cumulative_trapezoid lib y x = Inr c \<and> shape c = shape y \<and>
           length (data c) = length (data y)"
proof -
  have sx: "shape x = [length (data x)]" using assms by (simp add: wf_1d)
  have ny: "ndim y = 1" using assms by (simp add: ndim_def)
  have sy: "shape y = [length (data y)]" using assms ny by (simp add: wf_1d)
  have len: "length (data x) = length (data y)" using sx sy assms by simp
  show ?thesis using assms ny sy len
    by (simp add: cumulative_trapezoid_def length_diff length_cumsum)
qed

lemma getitem_last_1d:
  assumes "shape a = [n]" "n \<noteq> 0"
  shows "getitem_last a = Inr \<lparr>shape = [], data = drop (n - 1) (data a)\<rparr>"
  using assms by (simp add: getitem_last_def)

section \<open>The shape assertion\<close>

lemma fit_example:
  "fit_from_cdf linear_only
     (InversePIT [array1d [0, 1, 2], array1d [0, 1 / 2, 1], array1d [5, 6]]) 0 1 ''linear'' =
   (Inr (), example_fitted)"
  by (simp add: class_defs lib_defs float_defs example_fitted_def)

text \<open>
  C1, as stated, fails: \<open>transform_cdf\<close> has no shape check. On a mapper fitted from
  three samples, a call whose \<open>x\<close> has two entries and whose \<open>cdf\<close> has three does not
  raise the assertion error; it returns.
\<close>

theorem transform_cdf_accepts_other_shape:
  "\<not> (let s = snd (fit_from_cdf linear_only
        (InversePIT [array1d [0, 1, 2], array1d [0, 1 / 2, 1], array1d [5, 6]]) 0 1 ''linear'')
      in \<not> (ndim (heap s ! 2) = 1 \<and> shape (heap s ! 2) = shape (heap s ! 1)) \<longrightarrow>
         fst (transform_cdf s 2 1) = Inl AssertionError)"
  unfolding fit_example
  by (simp add: example_fitted_def transform_cdf_def alloc_def array1d_def ndim_def)

text \<open>
  C1, amended: the two fit methods check the shapes. When \<open>x\<close> is not one-dimensional
  or its shape differs from that of the dependent array, \<open>fit_from_cdf\<close> and
  \<open>fit_from_pdf\<close> raise the assertion error and leave the state (the arrays and any
  earlier mapping) as it was.
\<close>

theorem fit_asserts_shape:
  assumes "\<not> (ndim (heap s ! x) = 1 \<and> shape (heap s ! x) = shape (heap s ! d))"
  shows "fit_from_cdf lib s x d kind = (Inl AssertionError, s) \<and>
         fit_from_pdf lib s x d kind = (Inl AssertionError, s)"
  using assms by (simp add: fit_from_cdf_def fit_from_pdf_def)

theorem fit_asserts_shape_witness:
  "fit_from_cdf linear_only (InversePIT [array1d [0, 1], array1d [0, 1, 2]]) 0 1 ''linear''
     = (Inl AssertionError, InversePIT [array1d [0, 1], array1d [0, 1, 2]]) \<and>
   fit_from_pdf linear_only (InversePIT [array1d [0, 1], array1d [0, 1, 2]]) 0 1 ''linear''
     = (Inl AssertionError, InversePIT [array1d [0, 1], array1d [0, 1, 2]])"
  by (rule fit_asserts_shape) (simp add: InversePIT_def array1d_def ndim_def)

section \<open>The not-fitted guard\<close>

text \<open>
  C2, as stated, fails for \<open>transform_pdf\<close>: it integrates its arguments before it
  reaches the guard. On an unfitted mapper, an \<open>x\<close> of two entries with a \<open>pdf\<close> of three
  raises the integration's ValueError, not the not-fitted error.
\<close>

theorem transform_pdf_integrates_before_guard:
  "\<not> (cdf_map (InversePIT [array1d [0, 1], array1d [0, 1, 2]]) = None \<longrightarrow>
      fst (transform_pdf linear_only (InversePIT [array1d [0, 1], array1d [0, 1, 2]]) 0 1)
        = Inl RuntimeError)"
  by (simp add: class_defs lib_defs)

text \<open>
  C2, amended: on a mapper with no fitted mapping, \<open>transform_cdf\<close> raises the
  not-fitted error for all arguments and leaves the state unchanged; \<open>transform_pdf\<close>
  raises it whenever \<open>x\<close> and \<open>pdf\<close> are one-dimensional arrays of one shape with at
  least one entry.
\<close>

theorem not_fitted_guard:
  assumes "cdf_map s = None"
  shows "transform_cdf s x cdf = (Inl RuntimeError, s) \<and>
     (ndim (heap s ! x) = 1 \<and> shape (heap s ! x) = shape (heap s ! pdf) \<and>
      wf_array (heap s ! x) \<and> wf_array (heap s ! pdf) \<and> data (heap s ! pdf) \<noteq> []
      \<longrightarrow> fst (transform_pdf lib s x pdf) = Inl RuntimeError)"
proof (intro conjI impI)
  show "transform_cdf s x cdf = (Inl RuntimeError, s)"
    using assms by (simp add: transform_cdf_def)
next
  assume h: "ndim (heap s ! x) = 1 \<and> shape (heap s ! x) = shape (heap s ! pdf) \<and>
      wf_array (heap s ! x) \<and> wf_array (heap s ! pdf) \<and> data (heap s ! pdf) \<noteq> []"
  then obtain c where c: "cumulative_trapezoid lib (heap s ! pdf) (heap s ! x) = Inr c"
    "shape c = shape (heap s ! pdf)" "length (data c) = length (data (heap s ! pdf))"
    using cumulative_trapezoid_1d by blast
  have "ndim (heap s ! pdf) = 1" using h by (auto simp: ndim_def)
  then have sc: "shape c = [length (data (heap s ! pdf))]" using h c by (simp add: wf_1d)
  have n0: "length (data (heap s ! pdf)) \<noteq> 0" using h by simp
  show "fst (transform_pdf lib s x pdf) = Inl RuntimeError"
    using assms c(1) getitem_last_1d [OF sc n0]
    by (simp add: transform_pdf_def alloc_def itruediv_last_def transform_cdf_def)
qed

theorem not_fitted_guard_witness:
  "transform_cdf (InversePIT [array1d [0, 1, 2], array1d [1, 1, 1]]) 0 1
     = (Inl RuntimeError, InversePIT [array1d [0, 1, 2], array1d [1, 1, 1]]) \<and>
   fst (transform_pdf linear_only (InversePIT [array1d [0, 1, 2], array1d [1, 1, 1]]) 0 1)
     = Inl RuntimeError"
  using not_fitted_guard [of "InversePIT [array1d [0, 1, 2], array1d [1, 1, 1]]" 0 1 1 linear_only]
  by (simp add: InversePIT_def array1d_def ndim_def wf_array_def)

section \<open>What the methods change in the store\<close>






lemma map_nth_fun: "map (\<lambda>i. f (xs ! i)) [0..<length xs] = map f xs"
  by (rule nth_equalityI) simp_all

lemma drop_last: "xs \<noteq> [] \<Longrightarrow> drop (length xs - Suc 0) xs = [last xs]"
  by (metis One_nat_def append_butlast_last_id append_eq_conv_conj length_butlast)

lemma itruediv_last_1d:
  assumes "r < length (heap s)" "ndim (heap s ! r) = 1" "wf_array (heap s ! r)"
    "data (heap s ! r) \<noteq> []"
  shows "itruediv_last s r =
    (Inr (), s\<lparr>heap := (heap s)[r := \<lparr>shape = shape (heap s ! r),
       data = map (\<lambda>e. fdiv e (last (data (heap s ! r)))) (data (heap s ! r))\<rparr>]\<rparr>)"
proof -
  let ?a = "heap s ! r"
  have sh: "shape ?a = [length (data ?a)]" using assms by (simp add: wf_1d)
  have n0: "length (data ?a) \<noteq> 0" using assms by simp
  have "true_divide ?a \<lparr>shape = [], data = [last (data ?a)]\<rparr> =
      \<lparr>shape = shape ?a, data = map (\<lambda>e. fdiv e (last (data ?a))) (data ?a)\<rparr>"
    using map_nth_fun [of "\<lambda>e. fdiv e (last (data ?a))" "data ?a"]
    by (simp add: true_divide_def)
  then show ?thesis
    using getitem_last_1d [OF sh n0] assms(4) by (simp add: itruediv_last_def drop_last)
qed


lemma isclose_one: "isclose (Fin 1) (Fin 1)"
  by (simp add: float_defs)

lemma getitem_last_vector:
  assumes "ndim a = 1" "wf_array a" "data a \<noteq> []"
  shows "getitem_last a = Inr \<lparr>shape = [], data = [last (data a)]\<rparr>"
proof -
  have sh: "shape a = [length (data a)]" using assms by (simp add: wf_1d)
  have n0: "length (data a) \<noteq> 0" using assms by simp
  show ?thesis using getitem_last_1d [OF sh n0] assms(3) by (simp add: drop_last)
qed

lemma fit_from_cdf_divides:
  assumes "cdf < length (heap s)" "ndim (heap s ! x) = 1"
    "shape (heap s ! x) = shape (heap s ! cdf)" "wf_array (heap s ! cdf)"
    "data (heap s ! cdf) \<noteq> []" "\<not> isclose (last (data (heap s ! cdf))) (Fin 1)"
  shows "heap (snd (fit_from_cdf lib s x cdf kind)) =
     (heap s)[cdf := \<lparr>shape = shape (heap s ! cdf),
        data = map (\<lambda>e. fdiv e (last (data (heap s ! cdf)))) (data (heap s ! cdf))\<rparr>]"
proof -
  have n1: "ndim (heap s ! cdf) = 1" using assms by (simp add: ndim_def)
  have g: "getitem_last (heap s ! cdf) = Inr \<lparr>shape = [], data = [last (data (heap s ! cdf))]\<rparr>"
    using getitem_last_vector [OF n1 assms(4,5)] .
  have d: "itruediv_last s cdf =
    (Inr (), s\<lparr>heap := (heap s)[cdf := \<lparr>shape = shape (heap s ! cdf),
       data = map (\<lambda>e. fdiv e (last (data (heap s ! cdf)))) (data (heap s ! cdf))\<rparr>]\<rparr>)"
    using itruediv_last_1d [OF assms(1) n1 assms(4,5)] .
  show ?thesis
    using assms(2,3,6) g d
    by (simp add: fit_from_cdf_def item_def split: sum.splits)
qed

lemma fit_from_cdf_keeps:
  assumes "ndim (heap s ! x) = 1"
    "shape (heap s ! x) = shape (heap s ! cdf)" "wf_array (heap s ! cdf)"
    "data (heap s ! cdf) \<noteq> []" "isclose (last (data (heap s ! cdf))) (Fin 1)"
  shows "heap (snd (fit_from_cdf lib s x cdf kind)) = heap s"
proof -
  have n1: "ndim (heap s ! cdf) = 1" using assms by (simp add: ndim_def)
  have g: "getitem_last (heap s ! cdf) = Inr \<lparr>shape = [], data = [last (data (heap s ! cdf))]\<rparr>"
    using getitem_last_vector [OF n1 assms(3,4)] .
  show ?thesis
    using assms(1,2,5) g
    by (simp add: fit_from_cdf_def item_def split: sum.splits)
qed




section \<open>The steps of transform_pdf\<close>

lemma transform_cdf_fitted:
  assumes "cdf_map s = Some f"
  shows "transform_cdf s x cdf =
    (Inr (length (heap s), cdf), s\<lparr>heap := heap s @ [interp_call f (heap s ! cdf)]\<rparr>)"
  using assms by (simp add: transform_cdf_def alloc_def)

lemma transform_pdf_steps:
  assumes c: "cumulative_trapezoid lib (heap s ! pdf) (heap s ! x) = Inr c"
    and c1: "ndim c = 1" "wf_array c" "data c \<noteq> []"
    and f: "cdf_map s = Some f"
  shows "transform_pdf lib s x pdf =
    (let c' = \<lparr>shape = shape c, data = map (\<lambda>e. fdiv e (last (data c))) (data c)\<rparr>;
         xa = interp_call f c'
     in case gradient c' xa of
          Inl e \<Rightarrow> (Inl e, s\<lparr>heap := heap s @ [c', xa]\<rparr>)
        | Inr g \<Rightarrow> (Inr (Suc (length (heap s)), Suc (Suc (length (heap s)))),
                    s\<lparr>heap := heap s @ [c', xa, g]\<rparr>))"
proof -
  let ?n = "length (heap s)"
  let ?s1 = "s\<lparr>heap := heap s @ [c]\<rparr>"
  let ?c' = "\<lparr>shape = shape c, data = map (\<lambda>e. fdiv e (last (data c))) (data c)\<rparr>"
  let ?s2 = "s\<lparr>heap := heap s @ [?c']\<rparr>"
  have d: "itruediv_last ?s1 ?n = (Inr (), ?s2)"
    using itruediv_last_1d [of ?n ?s1] c1 by simp
  have t: "transform_cdf ?s2 x ?n =
      (Inr (Suc ?n, ?n), s\<lparr>heap := heap s @ [?c', interp_call f ?c']\<rparr>)"
    using transform_cdf_fitted [of ?s2 f x ?n] f by simp
  show ?thesis
    using c d t
    by (simp add: transform_pdf_def alloc_def Let_def nth_append split: sum.splits)
qed

lemma cumulative_trapezoid_1d_result:
  assumes "cumulative_trapezoid lib y x = Inr c" "ndim y = 1" "ndim x = 1" "wf_array y"
  shows "shape c = shape y \<and> wf_array c \<and> data c \<noteq> [] \<and>
         length (data c) = length (data y) \<and> length (data x) - 1 = length (data y) - 1"
proof -
  have sy: "shape y = [length (data y)]" using assms by (simp add: wf_1d)
  show ?thesis
    using assms(1,2,3) sy
    by (auto simp: cumulative_trapezoid_def length_diff length_cumsum wf_array_def
        split: if_splits)
qed

lemma gradient_result:
  assumes "gradient f x = Inr g"
  shows "shape g = shape f \<and> length (data g) = length (data f) \<and> 3 \<le> length (data f) \<and>
    ndim f = 1 \<and>
    data g = map (gradient_entry (get_spacing (diff (data x))) (data f)) [0..<length (data f)]"
  using assms by (auto simp: gradient_def split: if_splits)

lemma gradient_returns:
  assumes "ndim f = 1" "ndim x = 1" "length (data x) = length (data f)" "3 \<le> length (data f)"
  shows "\<exists>g. gradient f x = Inr g"
proof -
  have "length (diff (data x)) \<noteq> 0" using assms by (simp add: length_diff)
  then have "diff (data x) \<noteq> []" by simp
  then show ?thesis using assms by (simp add: gradient_def)
qed





section \<open>Lengths of the transformed arrays\<close>





section \<open>The integral of the code and the integral of the specification\<close>

lemma nth_diff: "Suc i < length xs \<Longrightarrow> diff xs ! i = fsub (xs ! Suc i) (xs ! i)"
proof (induction xs arbitrary: i rule: diff.induct)
  case (1 a b r)
  then show ?case by (cases i) simp_all
qed simp_all

lemma nth_cumsum_from:
  "k < length ts \<Longrightarrow> cumsum_from acc ts ! k = foldl fadd acc (take (Suc k) ts)"
proof (induction ts arbitrary: acc k)
  case Nil
  then show ?case by simp
next
  case (Cons t ts)
  then show ?case by (cases k) simp_all
qed

lemma sum_to_foldl: "sum_to a k = foldl fadd (a 0) (map a [1..<Suc k])"
  by (induction k) simp_all

lemma map_nth_Cons_upt:
  assumes "j < length r"
  shows "map (\<lambda>i. (t # r) ! i) [1..<Suc (Suc j)] = take (Suc j) r"
proof (rule nth_equalityI)
  show "length (map (\<lambda>i. (t # r) ! i) [1..<Suc (Suc j)]) = length (take (Suc j) r)"
    using assms by (simp del: upt_Suc)
next
  fix i assume "i < length (map (\<lambda>i. (t # r) ! i) [1..<Suc (Suc j)])"
  then have i: "i < Suc j" by (simp del: upt_Suc)
  then have "map (\<lambda>i. (t # r) ! i) [1..<Suc (Suc j)] ! i = (t # r) ! (1 + i)"
    by (simp del: upt_Suc)
  then show "map (\<lambda>i. (t # r) ! i) [1..<Suc (Suc j)] ! i = take (Suc j) r ! i"
    using i by (simp del: upt_Suc)
qed

lemma nth_cumsum: "k < length ts \<Longrightarrow> cumsum ts ! k = sum_to (\<lambda>i. ts ! i) k"
proof (cases ts)
  case Nil
  assume "k < length ts"
  with Nil show ?thesis by simp
next
  case (Cons t r)
  assume k: "k < length ts"
  show ?thesis
  proof (cases k)
    case 0
    then show ?thesis using Cons by simp
  next
    case (Suc j)
    then have j: "j < length r" using k Cons by simp
    have "cumsum ts ! k = foldl fadd t (take (Suc j) r)"
      using Cons Suc j by (simp add: nth_cumsum_from)
    also have "\<dots> = sum_to (\<lambda>i. (t # r) ! i) (Suc j)"
      unfolding sum_to_foldl [of _ "Suc j"] map_nth_Cons_upt [OF j] by simp
    finally show ?thesis using Cons Suc by simp
  qed
qed

lemma sum_to_cong: "(\<And>i. i \<le> k \<Longrightarrow> a i = b i) \<Longrightarrow> sum_to a k = sum_to b k"
  by (induction k) simp_all

lemma trapezoid_terms:
  assumes "length x = length y" "Suc i < length y"
  shows "map (\<lambda>t. fdiv t (Fin 2)) (map2 fmul (diff x) (map2 fadd (tl y) (butlast y))) ! i
         = trapezoid x y i"
  using assms
  by (simp add: trapezoid_def length_diff nth_diff nth_tl nth_butlast)

lemma length_trapezoid_terms:
  assumes "length x = length y"
  shows "length (map (\<lambda>t. fdiv t (Fin 2)) (map2 fmul (diff x) (map2 fadd (tl y) (butlast y))))
         = length y - 1"
  using assms by (simp add: length_diff)

lemma cumulative_trapezoid_integral:
  assumes "ndim x = 1" "shape x = shape y" "wf_array x" "wf_array y" "data y \<noteq> []"
  shows "cumulative_trapezoid lib y x =
     Inr \<lparr>shape = shape y,
          data = map (integral_at (data x) (data y)) [0..<length (data y)]\<rparr>"
proof -
  let ?ts = "map (\<lambda>t. fdiv t (Fin 2))
      (map2 fmul (diff (data x)) (map2 fadd (tl (data y)) (butlast (data y))))"
  have sx: "shape x = [length (data x)]" using assms by (simp add: wf_1d)
  have ny: "ndim y = 1" using assms by (simp add: ndim_def)
  have sy: "shape y = [length (data y)]" using assms ny by (simp add: wf_1d)
  have len: "length (data x) = length (data y)" using sx sy assms by simp
  have lt: "length ?ts = length (data y) - 1" using length_trapezoid_terms [OF len] .
  have c: "cumulative_trapezoid lib y x = Inr \<lparr>shape = shape y, data = Fin 0 # cumsum ?ts\<rparr>"
    using assms ny sy len by (simp add: cumulative_trapezoid_def length_diff)
  have "Fin 0 # cumsum ?ts = map (integral_at (data x) (data y)) [0..<length (data y)]"
  proof (rule nth_equalityI)
    show "length (Fin 0 # cumsum ?ts) =
        length (map (integral_at (data x) (data y)) [0..<length (data y)])"
      using assms(5) lt by (simp add: length_cumsum)
  next
    fix k assume "k < length (Fin 0 # cumsum ?ts)"
    then have k: "k < length (data y)" using assms(5) lt by (simp add: length_cumsum)
    show "(Fin 0 # cumsum ?ts) ! k =
        map (integral_at (data x) (data y)) [0..<length (data y)] ! k"
    proof (cases k)
      case 0
      then show ?thesis using k by (simp add: integral_at_def)
    next
      case (Suc j)
      then have j: "j < length ?ts" using k lt by simp
      have "cumsum ?ts ! j = sum_to (\<lambda>i. ?ts ! i) j" using nth_cumsum [OF j] .
      also have "\<dots> = sum_to (trapezoid (data x) (data y)) j"
      proof (rule sum_to_cong)
        fix i assume "i \<le> j"
        then have "Suc i < length (data y)" using Suc k by simp
        then show "?ts ! i = trapezoid (data x) (data y) i"
          using trapezoid_terms [OF len] by blast
      qed
      finally show ?thesis using Suc k by (simp add: integral_at_def)
    qed
  qed
  then show ?thesis using c by simp
qed

lemma normalised_integral:
  assumes "n \<noteq> 0"
  shows "map (\<lambda>e. fdiv e (last (map g [0..<n]))) (map g [0..<n]) =
         map (\<lambda>k. fdiv (g k) (g (n - 1))) [0..<n]"
proof -
  have "last (map g [0..<n]) = g (n - 1)"
    using assms by (cases n) simp_all
  then show ?thesis by simp
qed

lemma fit_from_pdf_unfold:
  assumes "ndim (heap s ! x) = 1" "shape (heap s ! x) = shape (heap s ! pdf)"
    "wf_array (heap s ! x)" "wf_array (heap s ! pdf)" "data (heap s ! pdf) \<noteq> []"
  shows "fit_from_pdf lib s x pdf kind =
     fit_from_cdf lib (snd (alloc s (spec_normalized_cdf (heap s ! x) (heap s ! pdf))))
       x (fst (alloc s (spec_normalized_cdf (heap s ! x) (heap s ! pdf)))) kind"
proof -
  let ?X = "heap s ! x" and ?P = "heap s ! pdf"
  let ?n = "length (data ?P)"
  let ?c = "\<lparr>shape = shape ?P, data = map (integral_at (data ?X) (data ?P)) [0..<?n]\<rparr>"
  let ?s1 = "s\<lparr>heap := heap s @ [?c]\<rparr>"
  have c: "cumulative_trapezoid lib ?P ?X = Inr ?c"
    using cumulative_trapezoid_integral [OF assms] .
  have n0: "?n \<noteq> 0" using assms(5) by simp
  have np: "ndim ?P = 1" using assms(1,2) by (simp add: ndim_def)
  have sp: "shape ?P = [?n]" using np assms(4) by (simp add: wf_1d)
  have d: "itruediv_last ?s1 (length (heap s)) =
      (Inr (), s\<lparr>heap := heap s @ [spec_normalized_cdf ?X ?P]\<rparr>)"
    using itruediv_last_1d [of "length (heap s)" ?s1] n0 sp normalised_integral [OF n0]
    by (simp add: ndim_def wf_array_def spec_normalized_cdf_def)
  show ?thesis
    using assms(1,2) c d by (simp add: fit_from_pdf_def alloc_def)
qed

text \<open>
  C3. For one-dimensional \<open>x\<close> and \<open>pdf\<close> of one shape with at least one sample,
  \<open>fit_from_pdf(x, pdf)\<close> is \<open>fit_from_cdf(x, c)\<close> for a new array \<open>c\<close> holding the
  cumulative trapezoidal integral of \<open>pdf\<close> over \<open>x\<close>, anchored at 0 and divided by its
  final value, as the specification defines it: the two calls return the same result
  and leave the same state, hence the same mapping and the same output of every later
  transform.
\<close>

theorem fit_from_pdf_is_fit_from_normalised_cdf:
  assumes "ndim (heap s ! x) = 1" "shape (heap s ! x) = shape (heap s ! pdf)"
    "wf_array (heap s ! x)" "wf_array (heap s ! pdf)" "data (heap s ! pdf) \<noteq> []"
  shows "fit_from_pdf lib s x pdf kind =
     fit_from_cdf lib (snd (alloc s (spec_normalized_cdf (heap s ! x) (heap s ! pdf))))
       x (fst (alloc s (spec_normalized_cdf (heap s ! x) (heap s ! pdf)))) kind"
  using assms by (rule fit_from_pdf_unfold)

lemma spec_cdf_example:
  "spec_normalized_cdf (array1d [0, 1, 2]) (array1d [1, 1, 1]) = array1d [0, 1 / 2, 1]"
  by (simp add: spec_normalized_cdf_def integral_at_def trapezoid_def array1d_def upt_3
      float_defs)

theorem fit_from_pdf_is_fit_from_normalised_cdf_witness:
  "fit_from_pdf linear_only (InversePIT [array1d [0, 1, 2], array1d [1, 1, 1]]) 0 1 ''linear'' =
   fit_from_cdf linear_only
     (InversePIT [array1d [0, 1, 2], array1d [1, 1, 1], array1d [0, 1 / 2, 1]]) 0 2 ''linear''"
proof -
  let ?s = "InversePIT [array1d [0, 1, 2], array1d [1, 1, 1]]"
  have h: "heap ?s ! 0 = array1d [0, 1, 2]" "heap ?s ! 1 = array1d [1, 1, 1]"
    by (simp_all add: InversePIT_def)
  have "fit_from_pdf linear_only ?s 0 1 ''linear'' =
     fit_from_cdf linear_only (snd (alloc ?s (spec_normalized_cdf (heap ?s ! 0) (heap ?s ! 1))))
       0 (fst (alloc ?s (spec_normalized_cdf (heap ?s ! 0) (heap ?s ! 1)))) ''linear''"
    by (rule fit_from_pdf_is_fit_from_normalised_cdf)
       (simp_all add: InversePIT_def array1d_def ndim_def wf_array_def)
  then show ?thesis
    unfolding h spec_cdf_example by (simp add: alloc_def InversePIT_def numeral_2_eq_2)
qed

section \<open>The final value of the fitted CDF\<close>

lemma fdiv_self_one: "isfinite v \<Longrightarrow> \<not> is_zero v \<Longrightarrow> fdiv v v = Fin 1"
  by (cases v) (auto simp: fdiv_def fin_of_def)

lemma fdiv_self_nan: "\<not> (isfinite v \<and> \<not> is_zero v) \<Longrightarrow> fdiv v v = NaN"
  by (cases v) (auto simp: fdiv_def fin_of_def)

lemma isclose_nan: "\<not> isclose NaN b"
  by (simp add: isclose_def feq_def)

lemma isclose_finite: "isclose v (Fin 1) \<Longrightarrow> isfinite v \<and> \<not> is_zero v"
  by (cases v) (auto simp: isclose_def float_defs)

lemma fit_from_cdf_success:
  assumes "fst (fit_from_cdf lib s x cdf kind) = Inr ()" "wf_array (heap s ! cdf)"
  shows "ndim (heap s ! x) = 1 \<and> shape (heap s ! x) = shape (heap s ! cdf) \<and>
         data (heap s ! cdf) \<noteq> []"
proof -
  have a: "ndim (heap s ! x) = 1 \<and> shape (heap s ! x) = shape (heap s ! cdf)"
    using assms(1) by (auto simp: fit_from_cdf_def split: if_splits)
  then have "ndim (heap s ! cdf) = 1" by (auto simp: ndim_def)
  then have sh: "shape (heap s ! cdf) = [length (data (heap s ! cdf))]"
    using assms(2) by (simp add: wf_1d)
  have "getitem_last (heap s ! cdf) \<noteq> Inl IndexError"
    using assms(1) a by (auto simp: fit_from_cdf_def split: sum.splits)
  then have "data (heap s ! cdf) \<noteq> []"
    using sh by (auto simp: getitem_last_def)
  with a show ?thesis by simp
qed

text \<open>
  The mapping a successful \<open>fit_from_cdf\<close> stores is the interpolant of the arrays as
  they are in the store when the call returns, after the division.
\<close>

lemma fit_from_cdf_installs:
  assumes "fst (fit_from_cdf lib s x cdf kind) = Inr ()"
  shows "\<exists>f. cdf_map (snd (fit_from_cdf lib s x cdf kind)) = Some f \<and>
     interp1d lib (data (heap (snd (fit_from_cdf lib s x cdf kind)) ! cdf))
       (data (heap (snd (fit_from_cdf lib s x cdf kind)) ! x)) kind = Inr f"
  using assms
  by (auto simp: fit_from_cdf_def split: if_splits sum.splits prod.splits)

lemma fit_from_cdf_final_value:
  assumes ok: "fst (fit_from_cdf lib s x cdf kind) = Inr ()"
    and r: "cdf < length (heap s)" and w: "wf_array (heap s ! cdf)"
  shows "last (data (heap (snd (fit_from_cdf lib s x cdf kind)) ! cdf)) =
     (if isclose (last (data (heap s ! cdf))) (Fin 1) then last (data (heap s ! cdf))
      else fdiv (last (data (heap s ! cdf))) (last (data (heap s ! cdf))))"
proof -
  let ?C = "heap s ! cdf"
  have v: "ndim (heap s ! x) = 1" "shape (heap s ! x) = shape ?C" "data ?C \<noteq> []"
    using fit_from_cdf_success [OF ok w] by simp_all
  show ?thesis
  proof (cases "isclose (last (data ?C)) (Fin 1)")
    case True
    then show ?thesis using fit_from_cdf_keeps [OF v(1,2) w v(3) True] by simp
  next
    case False
    then show ?thesis
      using fit_from_cdf_divides [OF r v(1,2) w v(3) False] r v(3) by (simp add: last_map)
  qed
qed

text \<open>
  C5, as stated, fails: there is no guard against a final value of zero. Fitting from
  \<open>x = [0, 1]\<close>, \<open>cdf = [0, 0]\<close> succeeds; the division \<open>0 / 0\<close> turns the array
  into not-a-number, and the mapping is built from an array that does not end near 1.
  The tolerance of the test is that of \<open>numpy.isclose\<close>, relative \<open>1e-05\<close> on top of
  the absolute \<open>1e-08\<close>: fitting from \<open>cdf = [0, 1 + 2\<^sup>-\<^sup>1\<^sup>8]\<close> succeeds without any
  division, and the mapping is built from an array whose final value is further than
  \<open>1e-08\<close> from 1.
\<close>

theorem zero_cdf_is_fitted_unnormalised:
  "\<not> (fst (fit_from_cdf linear_only (InversePIT [array1d [0, 1], array1d [0, 0]]) 0 1 ''linear'')
        = Inr () \<longrightarrow>
      isclose (last (data (heap (snd (fit_from_cdf linear_only
        (InversePIT [array1d [0, 1], array1d [0, 0]]) 0 1 ''linear'')) ! 1))) (Fin 1)) \<and>
   fit_from_cdf linear_only (InversePIT [array1d [0, 1], array1d [0, 1 + 1 / 2 ^ 18]])
       0 1 ''linear'' =
     (Inr (), \<lparr>heap = [array1d [0, 1], array1d [0, 1 + 1 / 2 ^ 18]],
        cdf_map = Some (call_linear [Fin 0, Fin (1 + 1 / 2 ^ 18)] [Fin 0, Fin 1])\<rparr>) \<and>
   \<not> fle (fabs (fsub (Fin (1 + 1 / 2 ^ 18)) (Fin 1))) atol"
proof -
  have "fit_from_cdf linear_only (InversePIT [array1d [0, 1], array1d [0, 0]]) 0 1 ''linear'' =
    (Inr (), \<lparr>heap = [array1d [0, 1], \<lparr>shape = [2], data = [NaN, NaN]\<rparr>],
       cdf_map = Some (call_linear [NaN, NaN] [Fin 0, Fin 1])\<rparr>)"
    by (simp add: class_defs lib_defs float_defs upt_rec)
  then have a: "\<not> (fst (fit_from_cdf linear_only (InversePIT [array1d [0, 1], array1d [0, 0]])
        0 1 ''linear'') = Inr () \<longrightarrow>
      isclose (last (data (heap (snd (fit_from_cdf linear_only
        (InversePIT [array1d [0, 1], array1d [0, 0]]) 0 1 ''linear'')) ! 1))) (Fin 1))"
    by (simp add: isclose_nan)
  have b: "fit_from_cdf linear_only (InversePIT [array1d [0, 1], array1d [0, 1 + 1 / 2 ^ 18]])
       0 1 ''linear'' =
     (Inr (), \<lparr>heap = [array1d [0, 1], array1d [0, 1 + 1 / 2 ^ 18]],
        cdf_map = Some (call_linear [Fin 0, Fin (1 + 1 / 2 ^ 18)] [Fin 0, Fin 1])\<rparr>)"
    by (simp add: class_defs lib_defs float_defs)
  have c: "\<not> fle (fabs (fsub (Fin (1 + 1 / 2 ^ 18)) (Fin 1))) atol"
    by (simp add: float_defs)
  show ?thesis using a b c by blast
qed

text \<open>
  \<open>fit_from_pdf\<close>, step by step: the integral \<open>c\<close> becomes a new array, is divided by
  its final value, and \<open>fit_from_cdf\<close> runs on it.
\<close>

lemma fit_from_pdf_steps:
  assumes g: "ndim (heap s ! x) = 1" "shape (heap s ! x) = shape (heap s ! pdf)"
    and c: "cumulative_trapezoid lib (heap s ! pdf) (heap s ! x) = Inr c"
    and c1: "ndim c = 1" "wf_array c" "data c \<noteq> []"
  shows "fit_from_pdf lib s x pdf kind =
     fit_from_cdf lib
       (s\<lparr>heap := heap s @
          [\<lparr>shape = shape c, data = map (\<lambda>e. fdiv e (last (data c))) (data c)\<rparr>]\<rparr>)
       x (length (heap s)) kind"
proof -
  let ?n = "length (heap s)"
  let ?s1 = "s\<lparr>heap := heap s @ [c]\<rparr>"
  let ?c' = "\<lparr>shape = shape c, data = map (\<lambda>e. fdiv e (last (data c))) (data c)\<rparr>"
  have d: "itruediv_last ?s1 ?n = (Inr (), s\<lparr>heap := heap s @ [?c']\<rparr>)"
    using itruediv_last_1d [of ?n ?s1] c1 by simp
  show ?thesis
    using g c d by (simp add: fit_from_pdf_def alloc_def)
qed

lemma fit_from_pdf_success:
  assumes "fst (fit_from_pdf lib s x pdf kind) = Inr ()" "wf_array (heap s ! pdf)"
  shows "ndim (heap s ! x) = 1 \<and> shape (heap s ! x) = shape (heap s ! pdf) \<and>
         data (heap s ! pdf) \<noteq> []"
proof -
  have a: "ndim (heap s ! x) = 1 \<and> shape (heap s ! x) = shape (heap s ! pdf)"
    using assms(1) by (auto simp: fit_from_pdf_def split: if_splits)
  then have n: "ndim (heap s ! pdf) = 1" by (auto simp: ndim_def)
  then have sh: "shape (heap s ! pdf) = [length (data (heap s ! pdf))]"
    using assms(2) by (simp add: wf_1d)
  have "\<exists>c. cumulative_trapezoid lib (heap s ! pdf) (heap s ! x) = Inr c"
    using assms(1) a by (auto simp: fit_from_pdf_def split: sum.splits)
  then have "data (heap s ! pdf) \<noteq> []"
    using a n sh by (auto simp: cumulative_trapezoid_def split: if_splits)
  with a show ?thesis by simp
qed

lemma fit_from_pdf_final_value:
  assumes ok: "fst (fit_from_pdf lib s x pdf kind) = Inr ()"
    and w: "wf_array (heap s ! x)" "wf_array (heap s ! pdf)"
    and c: "cumulative_trapezoid lib (heap s ! pdf) (heap s ! x) = Inr c"
  shows "(\<exists>f. cdf_map (snd (fit_from_pdf lib s x pdf kind)) = Some f \<and>
       interp1d lib (data (heap (snd (fit_from_pdf lib s x pdf kind)) ! length (heap s)))
         (data (heap (snd (fit_from_pdf lib s x pdf kind)) ! x)) kind = Inr f) \<and>
     last (data (heap (snd (fit_from_pdf lib s x pdf kind)) ! length (heap s))) =
       (if isfinite (last (data c)) \<and> \<not> is_zero (last (data c)) then Fin 1 else NaN)"
proof -
  let ?X = "heap s ! x" and ?P = "heap s ! pdf"
  let ?n = "length (heap s)"
  let ?v = "last (data c)"
  let ?c' = "\<lparr>shape = shape c, data = map (\<lambda>e. fdiv e ?v) (data c)\<rparr>"
  let ?s2 = "s\<lparr>heap := heap s @ [?c']\<rparr>"
  have v: "ndim ?X = 1" "shape ?X = shape ?P" "data ?P \<noteq> []"
    using fit_from_pdf_success [OF ok w(2)] by simp_all
  have np: "ndim ?P = 1" using v(1,2) by (simp add: ndim_def)
  have cr: "shape c = shape ?P" "wf_array c" "data c \<noteq> []"
    using cumulative_trapezoid_1d_result [OF c np v(1) w(2)] by simp_all
  have c1: "ndim c = 1" using cr(1) np by (simp add: ndim_def)
  have u: "fit_from_pdf lib s x pdf kind = fit_from_cdf lib ?s2 x ?n kind"
    using fit_from_pdf_steps [OF v(1,2) c c1 cr(2,3)] .
  have hc: "heap ?s2 ! ?n = ?c'" by simp
  have wc: "wf_array (heap ?s2 ! ?n)"
    unfolding hc using cr(2) by (simp add: wf_array_def)
  have r: "?n < length (heap ?s2)" by simp
  have ok2: "fst (fit_from_cdf lib ?s2 x ?n kind) = Inr ()" using ok u by simp
  have l: "last (data ?c') = fdiv ?v ?v" using cr(3) by (simp add: last_map)
  have f: "last (data (heap (snd (fit_from_cdf lib ?s2 x ?n kind)) ! ?n)) =
     (if isclose (fdiv ?v ?v) (Fin 1) then fdiv ?v ?v else fdiv (fdiv ?v ?v) (fdiv ?v ?v))"
    using fit_from_cdf_final_value [OF ok2 r wc] unfolding hc l .
  have fin: "last (data (heap (snd (fit_from_pdf lib s x pdf kind)) ! ?n)) =
       (if isfinite ?v \<and> \<not> is_zero ?v then Fin 1 else NaN)"
  proof (cases "isfinite ?v \<and> \<not> is_zero ?v")
    case True
    then have "fdiv ?v ?v = Fin 1" by (simp add: fdiv_self_one)
    then show ?thesis using f u True by (simp add: isclose_one)
  next
    case False
    then have "fdiv ?v ?v = NaN" by (rule fdiv_self_nan)
    then show ?thesis using f u False by (simp add: isclose_nan fdiv_def)
  qed
  show ?thesis
    using fit_from_cdf_installs [OF ok2] fin unfolding u by simp
qed

text \<open>
  C5, amended. After a successful \<open>fit_from_cdf\<close> the stored mapping is the
  interpolant of the caller's \<open>cdf\<close> array as the call leaves it, and the final value of
  that array is close to 1 (by the test \<open>numpy.isclose\<close> that the method applies) or
  not-a-number: close to 1 when the supplied final value was finite and not zero,
  not-a-number when it was zero, infinite or not-a-number. After a successful
  \<open>fit_from_pdf\<close> the stored mapping is the interpolant of the new array (at the first
  free reference) that holds the normalised integral, and the final value of that array
  is exactly 1 or not-a-number: 1 when the final value of the integral that
  \<open>cumulative_trapezoid\<close> returned is finite and not zero, not-a-number otherwise.
\<close>

theorem fitted_cdf_ends_at_one_or_nan:
  "(fst (fit_from_cdf lib s x cdf kind) = Inr () \<and> cdf < length (heap s) \<and>
    wf_array (heap s ! cdf) \<longrightarrow>
      (let s' = snd (fit_from_cdf lib s x cdf kind);
           v = last (data (heap s ! cdf));
           v' = last (data (heap s' ! cdf))
       in (\<exists>f. cdf_map s' = Some f \<and>
             interp1d lib (data (heap s' ! cdf)) (data (heap s' ! x)) kind = Inr f) \<and>
          (isclose v' (Fin 1) \<or> isnan v') \<and>
          (isfinite v \<and> \<not> is_zero v \<longrightarrow> isclose v' (Fin 1)) \<and>
          (\<not> (isfinite v \<and> \<not> is_zero v) \<longrightarrow> isnan v'))) \<and>
   (fst (fit_from_pdf lib s x pdf kind) = Inr () \<and>
    wf_array (heap s ! x) \<and> wf_array (heap s ! pdf) \<longrightarrow>
      (let s' = snd (fit_from_pdf lib s x pdf kind);
           n = length (heap s);
           v' = last (data (heap s' ! n))
       in (\<exists>f. cdf_map s' = Some f \<and>
             interp1d lib (data (heap s' ! n)) (data (heap s' ! x)) kind = Inr f) \<and>
          (v' = Fin 1 \<or> isnan v') \<and>
          (\<forall>c. cumulative_trapezoid lib (heap s ! pdf) (heap s ! x) = Inr c \<longrightarrow>
             (isfinite (last (data c)) \<and> \<not> is_zero (last (data c)) \<longrightarrow> v' = Fin 1) \<and>
             (\<not> (isfinite (last (data c)) \<and> \<not> is_zero (last (data c))) \<longrightarrow> isnan v'))))"
proof (intro conjI impI)
  assume h: "fst (fit_from_cdf lib s x cdf kind) = Inr () \<and> cdf < length (heap s) \<and>
    wf_array (heap s ! cdf)"
  let ?v = "last (data (heap s ! cdf))"
  have f: "last (data (heap (snd (fit_from_cdf lib s x cdf kind)) ! cdf)) =
     (if isclose ?v (Fin 1) then ?v else fdiv ?v ?v)"
    using fit_from_cdf_final_value h by blast
  have i: "\<exists>f. cdf_map (snd (fit_from_cdf lib s x cdf kind)) = Some f \<and>
     interp1d lib (data (heap (snd (fit_from_cdf lib s x cdf kind)) ! cdf))
       (data (heap (snd (fit_from_cdf lib s x cdf kind)) ! x)) kind = Inr f"
    using fit_from_cdf_installs h by blast
  have v: "(isclose (if isclose ?v (Fin 1) then ?v else fdiv ?v ?v) (Fin 1) \<or>
        isnan (if isclose ?v (Fin 1) then ?v else fdiv ?v ?v)) \<and>
     (isfinite ?v \<and> \<not> is_zero ?v \<longrightarrow>
        isclose (if isclose ?v (Fin 1) then ?v else fdiv ?v ?v) (Fin 1)) \<and>
     (\<not> (isfinite ?v \<and> \<not> is_zero ?v) \<longrightarrow>
        isnan (if isclose ?v (Fin 1) then ?v else fdiv ?v ?v))"
  proof (cases "isclose ?v (Fin 1)")
    case True
    then show ?thesis using isclose_finite [OF True] by simp
  next
    case False
    show ?thesis
    proof (cases "isfinite ?v \<and> \<not> is_zero ?v")
      case True
      then have "fdiv ?v ?v = Fin 1" by (simp add: fdiv_self_one)
      then show ?thesis using False True by (simp add: isclose_one)
    next
      case nf: False
      then have "fdiv ?v ?v = NaN" by (rule fdiv_self_nan)
      then show ?thesis using False nf by auto
    qed
  qed
  show "let s' = snd (fit_from_cdf lib s x cdf kind);
           v = last (data (heap s ! cdf));
           v' = last (data (heap s' ! cdf))
       in (\<exists>f. cdf_map s' = Some f \<and>
             interp1d lib (data (heap s' ! cdf)) (data (heap s' ! x)) kind = Inr f) \<and>
          (isclose v' (Fin 1) \<or> isnan v') \<and>
          (isfinite v \<and> \<not> is_zero v \<longrightarrow> isclose v' (Fin 1)) \<and>
          (\<not> (isfinite v \<and> \<not> is_zero v) \<longrightarrow> isnan v')"
    unfolding Let_def f using i v by blast
next
  assume h: "fst (fit_from_pdf lib s x pdf kind) = Inr () \<and>
    wf_array (heap s ! x) \<and> wf_array (heap s ! pdf)"
  let ?s' = "snd (fit_from_pdf lib s x pdf kind)"
  let ?P = "heap s ! pdf" and ?X = "heap s ! x"
  obtain c where c: "cumulative_trapezoid lib ?P ?X = Inr c"
    using h by (cases "cumulative_trapezoid lib ?P ?X")
      (auto simp: fit_from_pdf_def split: if_splits)
  note fv = fit_from_pdf_final_value [OF _ _ _ c, of kind]
  have a: "\<exists>f. cdf_map ?s' = Some f \<and>
       interp1d lib (data (heap ?s' ! length (heap s))) (data (heap ?s' ! x)) kind = Inr f"
    using fv h by blast
  have b: "last (data (heap ?s' ! length (heap s))) =
       (if isfinite (last (data c)) \<and> \<not> is_zero (last (data c)) then Fin 1 else NaN)"
    using fv h by blast
  show "let s' = snd (fit_from_pdf lib s x pdf kind);
           n = length (heap s);
           v' = last (data (heap s' ! n))
       in (\<exists>f. cdf_map s' = Some f \<and>
             interp1d lib (data (heap s' ! n)) (data (heap s' ! x)) kind = Inr f) \<and>
          (v' = Fin 1 \<or> isnan v') \<and>
          (\<forall>c. cumulative_trapezoid lib (heap s ! pdf) (heap s ! x) = Inr c \<longrightarrow>
             (isfinite (last (data c)) \<and> \<not> is_zero (last (data c)) \<longrightarrow> v' = Fin 1) \<and>
             (\<not> (isfinite (last (data c)) \<and> \<not> is_zero (last (data c))) \<longrightarrow> isnan v'))"
    unfolding Let_def using a b c by auto
qed

lemma fit_cdf_example_ok:
  "fst (fit_from_cdf linear_only (InversePIT [array1d [0, 1, 2], array1d [0, 1, 2]])
     0 1 ''linear'') = Inr ()"
  by (simp add: class_defs lib_defs float_defs upt_3)

lemma fit_pdf_example_ok:
  "fst (fit_from_pdf linear_only (InversePIT [array1d [0, 1, 2], array1d [1, 1, 1]])
     0 1 ''linear'') = Inr ()"
  by (simp add: class_defs lib_defs float_defs upt_3)

lemma integral_of_ones_3:
  "cumulative_trapezoid linear_only (array1d [1, 1, 1]) (array1d [0, 1, 2]) = Inr (array1d [0, 1, 2])"
  by (simp add: cumulative_trapezoid_def ndim_def array1d_def fin_eval)

theorem fitted_cdf_ends_at_one_or_nan_witness:
  "fst (fit_from_cdf linear_only (InversePIT [array1d [0, 1, 2], array1d [0, 1, 2]])
     0 1 ''linear'') = Inr () \<and>
   cdf_map (snd (fit_from_cdf linear_only (InversePIT [array1d [0, 1, 2], array1d [0, 1, 2]])
     0 1 ''linear'')) \<noteq> None \<and>
   isclose (last (data (heap (snd (fit_from_cdf linear_only
     (InversePIT [array1d [0, 1, 2], array1d [0, 1, 2]]) 0 1 ''linear'')) ! 1))) (Fin 1) \<and>
   fst (fit_from_pdf linear_only (InversePIT [array1d [0, 1, 2], array1d [1, 1, 1]])
     0 1 ''linear'') = Inr () \<and>
   cdf_map (snd (fit_from_pdf linear_only (InversePIT [array1d [0, 1, 2], array1d [1, 1, 1]])
     0 1 ''linear'')) \<noteq> None \<and>
   last (data (heap (snd (fit_from_pdf linear_only
     (InversePIT [array1d [0, 1, 2], array1d [1, 1, 1]]) 0 1 ''linear'')) ! 2)) = Fin 1"
proof -
  let ?s = "InversePIT [array1d [0, 1, 2], array1d [0, 1, 2]]"
  let ?t = "InversePIT [array1d [0, 1, 2], array1d [1, 1, 1]]"
  have i: "cumulative_trapezoid linear_only (heap ?t ! 1) (heap ?t ! 0) = Inr (array1d [0, 1, 2])"
    using integral_of_ones_3 by (simp add: InversePIT_def)
  have l: "last (data (array1d [0, 1, 2])) = Fin 2" by (simp add: array1d_def)
  have hs: "1 < length (heap ?s) \<and> wf_array (heap ?s ! 1)"
    by (simp add: InversePIT_def array1d_def wf_array_def)
  have ht: "wf_array (heap ?t ! 0) \<and> wf_array (heap ?t ! 1)"
    by (simp add: InversePIT_def array1d_def wf_array_def)
  have ls: "last (data (heap ?s ! 1)) = Fin 2" by (simp add: InversePIT_def array1d_def)
  have nt: "length (heap ?t) = 2" by (simp add: InversePIT_def)
  note a = fitted_cdf_ends_at_one_or_nan [where s = ?s and x = 0 and cdf = 1 and pdf = 1
        and lib = linear_only and kind = "''linear''", THEN conjunct1, unfolded Let_def ls]
  note b = fitted_cdf_ends_at_one_or_nan [where s = ?t and x = 0 and cdf = 1 and pdf = 1
        and lib = linear_only and kind = "''linear''", THEN conjunct2, unfolded Let_def nt]
  have a1: "cdf_map (snd (fit_from_cdf linear_only ?s 0 1 ''linear'')) \<noteq> None"
    using a fit_cdf_example_ok hs by auto
  have a2: "isclose (last (data (heap (snd (fit_from_cdf linear_only ?s 0 1 ''linear'')) ! 1)))
      (Fin 1)"
    using a fit_cdf_example_ok hs by simp
  have b1: "cdf_map (snd (fit_from_pdf linear_only ?t 0 1 ''linear'')) \<noteq> None"
    using b fit_pdf_example_ok ht by auto
  have b2: "last (data (heap (snd (fit_from_pdf linear_only ?t 0 1 ''linear'')) ! 2)) = Fin 1"
    using b fit_pdf_example_ok ht i l by simp
  show ?thesis using a1 a2 b1 b2 fit_cdf_example_ok fit_pdf_example_ok by simp
qed

section \<open>A gradient with decreasing coordinates\<close>

lemma crossed_gradient:
  "gradient (array1d [0, 1 / 2, 1]) (array1d [0, 2, 1]) =
   Inr (array1d [7 / 4, - 5 / 4, 1 / 4])"
  by (simp add: gradient_def gradient_entry_def get_spacing_def ndim_def array1d_def upt_3
      fin_eval)

lemma upt_4: "[0..<4] = [0, 1, 2, 3]"
  by (simp add: upt_rec)

lemma transform_pdf_eval:
  assumes c: "cumulative_trapezoid lib (heap s ! pdf) (heap s ! x) = Inr c"
    and c1: "ndim c = 1" "wf_array c" "data c \<noteq> []"
    and f: "cdf_map s = Some f"
    and n: "\<lparr>shape = shape c, data = map (\<lambda>e. fdiv e (last (data c))) (data c)\<rparr> = c'"
    and xa: "interp_call f c' = xa"
    and g: "gradient c' xa = Inr g"
  shows "transform_pdf lib s x pdf =
    (Inr (Suc (length (heap s)), Suc (Suc (length (heap s)))), s\<lparr>heap := heap s @ [c', xa, g]\<rparr>)"
  using transform_pdf_steps [OF c c1 f] n xa g by (simp add: Let_def)

lemma fit_crossed_example:
  "fit_from_cdf linear_only
     (InversePIT [array1d [0, 2, 1], array1d [0, 1 / 2, 1], array1d [0, 1, 2], array1d [1, 1, 1]])
     0 1 ''linear'' =
   (Inr (), \<lparr>heap = [array1d [0, 2, 1], array1d [0, 1 / 2, 1], array1d [0, 1, 2],
                     array1d [1, 1, 1]],
      cdf_map = Some (call_linear [Fin 0, Fin (1 / 2), Fin 1] [Fin 0, Fin 2, Fin 1])\<rparr>)"
  by (simp add: class_defs lib_defs float_defs)

lemma normalised_ones_3:
  "\<lparr>shape = shape (array1d [0, 1, 2]),
     data = map (\<lambda>e. fdiv e (last (data (array1d [0, 1, 2])))) (data (array1d [0, 1, 2]))\<rparr>
   = array1d [0, 1 / 2, 1]"
  by (simp add: array1d_def fin_eval)

lemma crossed_coordinates:
  "interp_call (call_linear [Fin 0, Fin (1 / 2), Fin 1] [Fin 0, Fin 2, Fin 1])
     (array1d [0, 1 / 2, 1]) = array1d [0, 2, 1]"
  by (simp add: interp_call_def call_linear_def searchsorted_def array1d_def fin_eval)

text \<open>
  C7, as stated, fails where the transformed coordinates decrease. Fit from
  \<open>x = [0, 2, 1]\<close>, \<open>cdf = [0, 0.5, 1]\<close> and transform \<open>x = [0, 1, 2]\<close>,
  \<open>pdf = [1, 1, 1]\<close>: the transformed coordinates are \<open>[0, 2, 1]\<close>, not monotonic at
  the last step, and the returned density is \<open>[1.75, -1.25, 0.25]\<close>, finite at every
  index.
\<close>

theorem decreasing_coordinates_give_finite_pdf:
  "let s = snd (fit_from_cdf linear_only
        (InversePIT [array1d [0, 2, 1], array1d [0, 1 / 2, 1], array1d [0, 1, 2],
                     array1d [1, 1, 1]]) 0 1 ''linear'');
       r = transform_pdf linear_only s 2 3
   in fst r = Inr (5, 6) \<and>
      heap (snd r) ! 5 = array1d [0, 2, 1] \<and>
      fless (data (heap (snd r) ! 5) ! 2) (data (heap (snd r) ! 5) ! 1) \<and>
      heap (snd r) ! 6 = array1d [7 / 4, - 5 / 4, 1 / 4] \<and>
      \<not> isnan (data (heap (snd r) ! 6) ! 1) \<and> \<not> isnan (data (heap (snd r) ! 6) ! 2)"
proof -
  let ?s = "\<lparr>heap = [array1d [0, 2, 1], array1d [0, 1 / 2, 1], array1d [0, 1, 2],
                     array1d [1, 1, 1]],
      cdf_map = Some (call_linear [Fin 0, Fin (1 / 2), Fin 1] [Fin 0, Fin 2, Fin 1])\<rparr>"
  have c: "cumulative_trapezoid linear_only (heap ?s ! 3) (heap ?s ! 2) = Inr (array1d [0, 1, 2])"
    using integral_of_ones_3 by simp
  have t: "transform_pdf linear_only ?s 2 3 =
      (Inr (Suc (length (heap ?s)), Suc (Suc (length (heap ?s)))),
       ?s\<lparr>heap := heap ?s @ [array1d [0, 1 / 2, 1], array1d [0, 2, 1],
          array1d [7 / 4, - 5 / 4, 1 / 4]]\<rparr>)"
    by (rule transform_pdf_eval [OF c _ _ _ _ normalised_ones_3 crossed_coordinates
          crossed_gradient])
       (simp_all add: array1d_def ndim_def wf_array_def)
  show ?thesis
    unfolding fit_crossed_example Let_def snd_conv t
    by (simp add: array1d_def fin_eval)
qed

section \<open>Not-a-number in the arithmetic\<close>

text \<open>
  The facts of this section and the next concern the special values only: zeros,
  infinities and not-a-number, and the sign of a result. They do not depend on how a
  finite result is rounded.
\<close>

lemma isnan_fadd: "isnan a \<or> isnan b \<Longrightarrow> isnan (fadd a b)"
  by (auto simp: fadd_def)

lemma isnan_fmul: "isnan a \<or> isnan b \<Longrightarrow> isnan (fmul a b)"
  by (auto simp: fmul_def)

lemma isnan_fdiv: "isnan a \<or> isnan b \<Longrightarrow> isnan (fdiv a b)"
  by (auto simp: fdiv_def)

lemma inf_times_not_negative:
  "isinf a \<Longrightarrow> \<not> fless u (Fin 0) \<Longrightarrow> isnan (fmul a u) \<or> fmul a u = a"
  by (cases a; cases u) (auto simp: fmul_def fless_def inf_of_def)

lemma opposite_infinities_cancel:
  assumes "isnan a \<or> isnan b \<or> (isinf a \<and> isinf b \<and> a \<noteq> b)"
    and "\<not> fless u (Fin 0)" "\<not> fless v (Fin 0)"
  shows "isnan (fadd (fmul a u) (fmul b v))"
proof (cases "isnan a \<or> isnan b")
  case True
  then show ?thesis by (auto simp: isnan_fadd isnan_fmul)
next
  case False
  then have i: "isinf a" "isinf b" "a \<noteq> b" using assms(1) by auto
  have "isnan (fmul a u) \<or> fmul a u = a" using i(1) assms(2) by (rule inf_times_not_negative)
  moreover have "isnan (fmul b v) \<or> fmul b v = b" using i(2) assms(3) by (rule inf_times_not_negative)
  moreover have "isnan (fadd a b)" using i by (cases a; cases b) (auto simp: fadd_def)
  ultimately show ?thesis by (auto simp: isnan_fadd)
qed

lemma fmul_zero_or_nan_left:
  "is_zero a \<or> isnan a \<Longrightarrow> is_zero (fmul a b) \<or> isnan (fmul a b)"
  by (cases a; cases b) (auto simp: fmul_def fin_of_def zero_of_def)

lemma opposite_infinities_cancel_after_zero:
  assumes z: "is_zero a \<or> isnan a"
    and o: "isnan b \<or> isnan c \<or> (isinf b \<and> isinf c \<and> b \<noteq> c)"
    and n: "\<not> fless v (Fin 0)" "\<not> fless w (Fin 0)"
  shows "isnan (fadd (fadd (fmul a u) (fmul b v)) (fmul c w))"
proof (cases "isnan b \<or> isnan c \<or> isnan (fmul a u)")
  case True
  then show ?thesis by (auto simp: isnan_fadd isnan_fmul)
next
  case False
  then have i: "isinf b" "isinf c" "b \<noteq> c" using o by auto
  have za: "is_zero (fmul a u)" using fmul_zero_or_nan_left [OF z, of u] False by simp
  have bv: "isnan (fmul b v) \<or> fmul b v = b" using i(1) n(1) by (rule inf_times_not_negative)
  have cw: "isnan (fmul c w) \<or> fmul c w = c" using i(2) n(2) by (rule inf_times_not_negative)
  have s: "fadd (fmul a u) b = b" using za i(1) by (cases "fmul a u"; cases b) (auto simp: fadd_def)
  have "isnan (fadd b c)" using i by (cases b; cases c) (auto simp: fadd_def)
  then show ?thesis using bv cw s by (auto simp: isnan_fadd)
qed

text \<open>
  The weights of the second-order differences when one of the two spacings of the
  stencil is zero (or not-a-number) and the other one, \<open>w\<close>, is arbitrary: the two
  weights that are divided by the product of the spacings are not-a-number, or they
  are infinities of opposite sign; the third weight, where it matters, is zero or
  not-a-number.
\<close>

lemma interior_weights_left:
  assumes "is_zero z \<or> isnan z"
  shows "isnan (fdiv (fneg w) (fmul z (fadd z w))) \<or> isnan (fdiv (fsub w z) (fmul z w)) \<or>
     (isinf (fdiv (fneg w) (fmul z (fadd z w))) \<and> isinf (fdiv (fsub w z) (fmul z w)) \<and>
      fdiv (fneg w) (fmul z (fadd z w)) \<noteq> fdiv (fsub w z) (fmul z w))"
  using assms
  by (cases z; cases w)
     (auto simp: fdiv_def fmul_def fadd_def fsub_def fin_of_def zero_of_def inf_of_def)

lemma interior_weights_right:
  assumes "is_zero z \<or> isnan z"
  shows "(is_zero (fdiv (fneg z) (fmul w (fadd w z))) \<or> isnan (fdiv (fneg z) (fmul w (fadd w z)))) \<and>
     (isnan (fdiv (fsub z w) (fmul w z)) \<or> isnan (fdiv w (fmul z (fadd w z))) \<or>
      (isinf (fdiv (fsub z w) (fmul w z)) \<and> isinf (fdiv w (fmul z (fadd w z))) \<and>
       fdiv (fsub z w) (fmul w z) \<noteq> fdiv w (fmul z (fadd w z))))"
  using assms
  by (cases z; cases w)
     (auto simp: fdiv_def fmul_def fadd_def fsub_def fin_of_def zero_of_def inf_of_def)

lemma first_edge_weights:
  assumes "is_zero z \<or> isnan z"
  shows "isnan (fdiv (fneg (fadd (fmul (Fin 2) z) w)) (fmul z (fadd z w))) \<or>
     isnan (fdiv (fadd z w) (fmul z w)) \<or>
     (isinf (fdiv (fneg (fadd (fmul (Fin 2) z) w)) (fmul z (fadd z w))) \<and>
      isinf (fdiv (fadd z w) (fmul z w)) \<and>
      fdiv (fneg (fadd (fmul (Fin 2) z) w)) (fmul z (fadd z w)) \<noteq> fdiv (fadd z w) (fmul z w))"
  using assms
  by (cases z; cases w)
     (auto simp: fdiv_def fmul_def fadd_def fsub_def fin_of_def zero_of_def inf_of_def)

lemma last_edge_weights:
  assumes "is_zero z \<or> isnan z"
  shows "(is_zero (fdiv z (fmul w (fadd w z))) \<or> isnan (fdiv z (fmul w (fadd w z)))) \<and>
     (isnan (fdiv (fneg (fadd z w)) (fmul w z)) \<or>
      isnan (fdiv (fadd (fmul (Fin 2) z) w) (fmul z (fadd w z))) \<or>
      (isinf (fdiv (fneg (fadd z w)) (fmul w z)) \<and>
       isinf (fdiv (fadd (fmul (Fin 2) z) w) (fmul z (fadd w z))) \<and>
       fdiv (fneg (fadd z w)) (fmul w z) \<noteq>
         fdiv (fadd (fmul (Fin 2) z) w) (fmul z (fadd w z))))"
  using assms
  by (cases z; cases w)
     (auto simp: fdiv_def fmul_def fadd_def fsub_def fin_of_def zero_of_def inf_of_def)

section \<open>The gradient at coinciding coordinates\<close>

text \<open>
  With opposite infinite weights on two values that are not negative, the weighted sum
  is not-a-number: a zero value gives \<open>inf * 0\<close>, two positive values give
  \<open>inf - inf\<close>.
\<close>

lemma interior_left_nan:
  assumes "is_zero (d ! (i - 1)) \<or> isnan (d ! (i - 1))"
    and "\<not> fless (f ! (i - 1)) (Fin 0)" "\<not> fless (f ! i) (Fin 0)"
  shows "isnan (interior (Nonuniform d) f i)"
  using opposite_infinities_cancel [OF interior_weights_left [OF assms(1), of "d ! i"] assms(2,3)]
  by (simp add: Let_def isnan_fadd)

lemma interior_right_nan:
  assumes "is_zero (d ! i) \<or> isnan (d ! i)"
    and "\<not> fless (f ! i) (Fin 0)" "\<not> fless (f ! (i + 1)) (Fin 0)"
  shows "isnan (interior (Nonuniform d) f i)"
  using interior_weights_right [OF assms(1), of "d ! (i - 1)"] assms(2,3)
  by (simp add: Let_def opposite_infinities_cancel_after_zero)

lemma first_edge_nan:
  assumes "is_zero (d ! 0) \<or> isnan (d ! 0)"
    and "\<not> fless (f ! 0) (Fin 0)" "\<not> fless (f ! 1) (Fin 0)"
  shows "isnan (first_edge (Nonuniform d) f)"
  using opposite_infinities_cancel [OF first_edge_weights [OF assms(1), of "d ! 1"] assms(2,3)]
  by (simp add: Let_def isnan_fadd)

lemma last_edge_nan:
  assumes "is_zero (d ! (length f - 2)) \<or> isnan (d ! (length f - 2))"
    and "\<not> fless (f ! (length f - 2)) (Fin 0)" "\<not> fless (f ! (length f - 1)) (Fin 0)"
  shows "isnan (last_edge (Nonuniform d) f)"
  using last_edge_weights [OF assms(1), of "d ! (length f - 3)"] assms(2,3)
  by (simp add: Let_def opposite_infinities_cancel_after_zero)

lemma gradient_entry_nan:
  assumes n: "3 \<le> length f" and l: "length d = length f - 1" and i: "i < length f"
    and j: "j < length d" "is_zero (d ! j) \<or> isnan (d ! j)" "j = i \<or> Suc j = i"
    and nn: "\<forall>e \<in> set f. \<not> fless e (Fin 0)"
  shows "isnan (gradient_entry (Nonuniform d) f i)"
proof -
  have fk: "\<not> fless (f ! k) (Fin 0)" if "k < length f" for k using nn that by simp
  show ?thesis
  proof (cases "i = 0")
    case True
    then have j0: "j = 0" using j(3) by simp
    have f0: "\<not> fless (f ! 0) (Fin 0)" by (rule fk) (use n in auto)
    have f1: "\<not> fless (f ! 1) (Fin 0)" by (rule fk) (use n in auto)
    have "isnan (first_edge (Nonuniform d) f)"
      using j(2) unfolding j0 by (rule first_edge_nan [OF _ f0 f1])
    then show ?thesis
      unfolding gradient_entry_def using True by (simp del: first_edge.simps)
  next
    case i0: False
    show ?thesis
    proof (cases "i = length f - 1")
      case True
      then have jl: "j = length f - 2" using j(1,3) l n by auto
      have f0: "\<not> fless (f ! (length f - 2)) (Fin 0)" by (rule fk) (use n in auto)
      have f1: "\<not> fless (f ! (length f - 1)) (Fin 0)" by (rule fk) (use n in auto)
      have "isnan (last_edge (Nonuniform d) f)"
        using j(2) unfolding jl by (rule last_edge_nan [OF _ f0 f1])
      then show ?thesis
        unfolding gradient_entry_def using True i0 by (simp del: last_edge.simps)
    next
      case False
      have "isnan (interior (Nonuniform d) f i)"
      proof (cases "j = i")
        case True
        have f0: "\<not> fless (f ! i) (Fin 0)" by (rule fk) (use i in auto)
        have f1: "\<not> fless (f ! (i + 1)) (Fin 0)" by (rule fk) (use i False in auto)
        show ?thesis
          using j(2) unfolding True by (rule interior_right_nan [OF _ f0 f1])
      next
        case ne: False
        then have ji: "j = i - 1" using j(3) by auto
        have f0: "\<not> fless (f ! (i - 1)) (Fin 0)" by (rule fk) (use i in auto)
        have f1: "\<not> fless (f ! i) (Fin 0)" by (rule fk) (use i in auto)
        show ?thesis
          using j(2) unfolding ji by (rule interior_left_nan [OF _ f0 f1])
      qed
      then show ?thesis
        unfolding gradient_entry_def using False i0 by (simp del: interior.simps)
    qed
  qed
qed

text \<open>
  Two equal consecutive coordinates give a zero spacing. When some other pair of
  consecutive coordinates is not equal, the spacing is not constant, and
  \<open>numpy.gradient\<close> uses the differences for non-uniform spacing.
\<close>

lemma fsub_of_equal: "feq a b \<Longrightarrow> is_zero (fsub b a) \<or> isnan (fsub b a)"
  by (cases a; cases b) (auto simp: feq_def fsub_def fadd_def zero_of_def)

lemma feq_zero: "feq e h \<Longrightarrow> is_zero e \<Longrightarrow> is_zero h"
  by (cases e; cases h) (auto simp: feq_def)

lemma uniform_spacing_zero:
  assumes "list_all (\<lambda>e. feq e (hd d)) d" "j < length d" "is_zero (d ! j) \<or> isnan (d ! j)"
  shows "is_zero (hd d)"
proof -
  have e: "feq (d ! j) (hd d)" using assms(1,2) by (simp add: list_all_length)
  then have "\<not> isnan (d ! j)" by (auto simp: feq_def)
  then have "is_zero (d ! j)" using assms(3) by simp
  with e show ?thesis by (rule feq_zero)
qed

lemma feq_zero_left: "feq e h \<Longrightarrow> is_zero h \<Longrightarrow> is_zero e"
  by (cases e; cases h) (auto simp: feq_def)

lemma zero_difference: "is_zero (fsub b a) \<Longrightarrow> feq a b"
  by (cases a; cases b) (auto simp: feq_def fsub_def fadd_def zero_of_def split: if_splits)

lemma spacing_not_uniform:
  assumes j: "Suc j < length xs" "feq (xs ! j) (xs ! Suc j)"
    and k: "Suc k < length xs" "\<not> feq (xs ! k) (xs ! Suc k)"
  shows "get_spacing (diff xs) = Nonuniform (diff xs)"
proof -
  let ?d = "diff xs"
  have jd: "j < length ?d" "k < length ?d" using j k by (simp_all add: length_diff)
  have "\<not> list_all (\<lambda>e. feq e (hd ?d)) ?d"
  proof
    assume u: "list_all (\<lambda>e. feq e (hd ?d)) ?d"
    have "is_zero (?d ! j) \<or> isnan (?d ! j)"
      using fsub_of_equal [OF j(2)] j(1) by (simp add: nth_diff)
    then have z: "is_zero (hd ?d)" using uniform_spacing_zero [OF u jd(1)] by simp
    have "feq (?d ! k) (hd ?d)" using u jd(2) by (simp add: list_all_length)
    then have "is_zero (?d ! k)" using z by (rule feq_zero_left)
    then have "is_zero (fsub (xs ! Suc k) (xs ! k))" using k(1) by (simp add: nth_diff)
    then have "feq (xs ! k) (xs ! Suc k)" by (rule zero_difference)
    then show False using k(2) by simp
  qed
  then show ?thesis by (simp add: get_spacing_def)
qed

section \<open>The sign of the normalised integral\<close>

text \<open>
  For non-decreasing finite \<open>x\<close> and a finite \<open>pdf\<close> that is nowhere negative, every
  trapezoid, every running sum and every quotient by the final sum is not negative.
\<close>

lemma trapezoid_not_negative:
  assumes "sorted xs" "\<forall>p \<in> set ps. 0 \<le> p" "length xs = length ps" "Suc i < length ps"
  shows "\<exists>r\<ge>0. trapezoid (map Fin xs) (map Fin ps) i = Fin r"
proof -
  have x: "xs ! i \<le> xs ! Suc i" using assms(1,3,4) by (simp add: sorted_iff_nth_mono)
  have p: "0 \<le> ps ! i" "0 \<le> ps ! Suc i" using assms(2,4) by simp_all
  have m: "0 \<le> (xs ! Suc i - xs ! i) * (ps ! Suc i + ps ! i)" using x p by simp
  have "trapezoid (map Fin xs) (map Fin ps) i =
      Fin ((xs ! Suc i - xs ! i) * (ps ! Suc i + ps ! i) / 2)"
    using assms(3,4) x p m by (auto simp: trapezoid_def fin_eval)
  moreover have "0 \<le> (xs ! Suc i - xs ! i) * (ps ! Suc i + ps ! i) / 2" using m by simp
  ultimately show ?thesis by blast
qed

lemma sum_to_not_negative:
  "(\<And>i. i \<le> k \<Longrightarrow> \<exists>r\<ge>0. a i = Fin r) \<Longrightarrow> \<exists>r\<ge>0. sum_to a k = Fin r"
proof (induction k)
  case 0
  then show ?case by simp
next
  case (Suc k)
  obtain r where r: "0 \<le> r" "sum_to a k = Fin r" using Suc by fastforce
  obtain t where t: "0 \<le> t" "a (Suc k) = Fin t" using Suc.prems [of "Suc k"] by auto
  show ?case using r t by (auto simp: fadd_Fin intro!: exI [of _ "r + t"])
qed

lemma integral_not_negative:
  assumes "sorted xs" "\<forall>p \<in> set ps. 0 \<le> p" "length xs = length ps" "k < length ps"
  shows "\<exists>r\<ge>0. integral_at (map Fin xs) (map Fin ps) k = Fin r"
proof (cases k)
  case 0
  then show ?thesis by (simp add: integral_at_def)
next
  case (Suc j)
  have "\<exists>r\<ge>0. sum_to (trapezoid (map Fin xs) (map Fin ps)) j = Fin r"
  proof (rule sum_to_not_negative)
    fix i assume "i \<le> j"
    then have "Suc i < length ps" using Suc assms(4) by simp
    then show "\<exists>r\<ge>0. trapezoid (map Fin xs) (map Fin ps) i = Fin r"
      using trapezoid_not_negative [OF assms(1,2,3)] by blast
  qed
  then show ?thesis using Suc by (simp add: integral_at_def)
qed

lemma quotient_not_negative: "0 \<le> a \<Longrightarrow> 0 \<le> v \<Longrightarrow> \<not> fless (fdiv (Fin a) (Fin v)) (Fin 0)"
  by (auto simp: fdiv_def fless_def fin_of_def zero_of_def inf_of_def divide_less_0_iff)

lemma normalised_integral_not_negative:
  assumes "sorted xs" "\<forall>p \<in> set ps. 0 \<le> p" "length xs = length ps" "ps \<noteq> []"
    and c: "cumulative_trapezoid lib (array1d ps) (array1d xs) = Inr c"
  shows "\<forall>e \<in> set (map (\<lambda>e. fdiv e (last (data c))) (data c)). \<not> fless e (Fin 0)"
proof -
  let ?n = "length ps"
  let ?g = "integral_at (map Fin xs) (map Fin ps)"
  have "cumulative_trapezoid lib (array1d ps) (array1d xs) =
      Inr \<lparr>shape = shape (array1d ps), data = map ?g [0..<length (data (array1d ps))]\<rparr>"
    using cumulative_trapezoid_integral [of "array1d xs" "array1d ps" lib] assms(3,4)
    by (simp add: array1d_def ndim_def wf_array_def)
  then have d: "data c = map ?g [0..<?n]" using c by (auto simp: array1d_def)
  have n0: "?n \<noteq> 0" using assms(4) by simp
  have la: "last (data c) = ?g (?n - 1)" unfolding d using n0 by (cases ?n) simp_all
  obtain v where v: "0 \<le> v" "?g (?n - 1) = Fin v"
    using integral_not_negative [OF assms(1,2,3), of "?n - 1"] n0 by auto
  show ?thesis
  proof
    fix e assume "e \<in> set (map (\<lambda>e. fdiv e (last (data c))) (data c))"
    then obtain k where k: "k < ?n" "e = fdiv (?g k) (Fin v)"
      unfolding la v(2) unfolding d by auto
    obtain a where a: "0 \<le> a" "?g k = Fin a"
      using integral_not_negative [OF assms(1,2,3) k(1)] by auto
    show "\<not> fless e (Fin 0)"
      unfolding k(2) a(2) using a(1) v(1) by (rule quotient_not_negative)
  qed
qed

section \<open>The conditions signalled by the gradient\<close>

text \<open>The expressions evaluate to the entries of the gradient.\<close>

lemma eval_interior_expr: "eval (interior_expr sp f i) = interior sp f i"
  by (cases sp) (simp_all add: Let_def)

lemma eval_first_edge_expr: "eval (first_edge_expr sp f) = first_edge sp f"
  by (cases sp) (simp_all add: Let_def)

lemma eval_last_edge_expr: "eval (last_edge_expr sp f) = last_edge sp f"
  by (cases sp) (simp_all add: Let_def)

lemma eval_gradient_entry_expr: "eval (gradient_entry_expr sp f i) = gradient_entry sp f i"
  by (simp add: gradient_entry_expr_def gradient_entry_def eval_interior_expr
      eval_first_edge_expr eval_last_edge_expr)

lemma differentiation_reports_nothing: "differentiation_reports cdf x = {}"
  by (simp add: differentiation_reports_def reported_def)

lemma zero_denominator_signals:
  assumes "is_zero d" "isfinite n"
  shows "invalid_op n d (fdiv n d) \<union> zero_divide n d \<noteq> {}"
  using assms by (cases n; cases d) (auto simp: invalid_op_def zero_divide_def fdiv_def)

lemma isfinite_fadd: "isfinite a \<Longrightarrow> isfinite b \<Longrightarrow> isfinite (fadd a b)"
  by (cases a; cases b) (auto simp: fadd_def zero_of_def)

lemma isfinite_fsub: "isfinite a \<Longrightarrow> isfinite b \<Longrightarrow> isfinite (fsub a b)"
  by (cases a; cases b) (auto simp: fsub_def fadd_def zero_of_def)

lemma zero_product: "is_zero z \<Longrightarrow> isfinite w \<Longrightarrow> is_zero (fmul z w) \<and> is_zero (fmul w z)"
  by (cases z; cases w) (auto simp: fmul_def fin_of_def zero_of_def)

lemma first_edge_signals:
  assumes "is_zero (d ! 0)" "isfinite (d ! 1)"
  shows "raised (first_edge_expr (Nonuniform d) f) \<noteq> {}"
proof -
  have z: "is_zero (fmul (d ! 0) (d ! 1))" using zero_product [OF assms] by simp
  have "isfinite (d ! 0)" using assms(1) by (cases "d ! 0") auto
  then have n: "isfinite (fadd (d ! 0) (d ! 1))" using assms(2) by (rule isfinite_fadd)
  show ?thesis
    using zero_denominator_signals [OF z n] by (auto simp: Let_def)
qed

lemma interior_signals:
  assumes "is_zero (d ! i)" "isfinite (d ! (i - 1))"
  shows "raised (interior_expr (Nonuniform d) f i) \<noteq> {}"
proof -
  have z: "is_zero (fmul (d ! (i - 1)) (d ! i))" using zero_product [OF assms] by simp
  have "isfinite (d ! i)" using assms(1) by (cases "d ! i") auto
  then have n: "isfinite (fsub (d ! i) (d ! (i - 1)))" using assms(2) by (rule isfinite_fsub)
  show ?thesis
    using zero_denominator_signals [OF z n] by (auto simp: Let_def)
qed

lemma gradient_raised_at_coinciding:
  assumes n: "length (data f) = length (data x)"
    and fin: "\<forall>e \<in> set (data x). isfinite e"
    and j: "Suc j < length (data x)" "feq (data x ! j) (data x ! Suc j)"
    and k: "Suc k < length (data x)" "\<not> feq (data x ! k) (data x ! Suc k)"
  shows "gradient_raised f x \<noteq> {}"
proof -
  let ?xs = "data x"
  let ?d = "diff ?xs"
  have sp: "get_spacing ?d = Nonuniform ?d" using spacing_not_uniform [OF j k] .
  have fd: "isfinite (?d ! m)" if "Suc m < length ?xs" for m
    using that fin by (simp add: nth_diff isfinite_fsub)
  have "is_zero (?d ! j) \<or> isnan (?d ! j)"
    using fsub_of_equal [OF j(2)] j(1) by (simp add: nth_diff)
  moreover have "isfinite (?d ! j)" using fd j(1) by simp
  ultimately have z: "is_zero (?d ! j)" by (cases "?d ! j") auto
  have jn: "j < length (data f)" using j(1) n by simp
  have "raised (gradient_entry_expr (Nonuniform ?d) (data f) j) \<noteq> {}"
  proof (cases "j = 0")
    case True
    have "Suc 1 < length ?xs"
    proof (rule ccontr)
      assume "\<not> Suc 1 < length ?xs"
      then have "k = 0" using k(1) by simp
      then show False using k(2) j(2) True by simp
    qed
    then have "isfinite (?d ! 1)" by (rule fd)
    then show ?thesis
      using first_edge_signals [of ?d "data f"] z True
      by (simp add: gradient_entry_expr_def del: first_edge_expr.simps)
  next
    case False
    then have "Suc (j - 1) < length ?xs" using j(1) by simp
    then have "isfinite (?d ! (j - 1))" by (rule fd)
    then show ?thesis
      using interior_signals [of ?d j "data f"] z False j(1) n
      by (auto simp: gradient_entry_expr_def simp del: interior_expr.simps)
  qed
  then show ?thesis
    unfolding gradient_raised_def sp using jn by auto
qed

section \<open>The transformed density at coinciding coordinates\<close>

lemma transform_pdf_differentiates:
  assumes f: "cdf_map s = Some f"
    and hx: "heap s ! x = array1d xs" and hp: "heap s ! pdf = array1d ps"
    and l: "length xs = length ps" "3 \<le> length ps"
  shows "\<exists>c g. cumulative_trapezoid lib (array1d ps) (array1d xs) = Inr c \<and>
     length (data c) = length ps \<and>
     gradient \<lparr>shape = shape c, data = map (\<lambda>e. fdiv e (last (data c))) (data c)\<rparr>
       (interp_call f \<lparr>shape = shape c, data = map (\<lambda>e. fdiv e (last (data c))) (data c)\<rparr>)
       = Inr g \<and>
     transform_pdf lib s x pdf =
       (Inr (Suc (length (heap s)), Suc (Suc (length (heap s)))),
        s\<lparr>heap := heap s @
          [\<lparr>shape = shape c, data = map (\<lambda>e. fdiv e (last (data c))) (data c)\<rparr>,
           interp_call f \<lparr>shape = shape c, data = map (\<lambda>e. fdiv e (last (data c))) (data c)\<rparr>,
           g]\<rparr>)"
proof -
  let ?P = "heap s ! pdf" and ?X = "heap s ! x"
  have d: "ndim ?X = 1" "shape ?X = shape ?P" "wf_array ?X" "wf_array ?P"
    unfolding hx hp using l by (simp_all add: array1d_def ndim_def wf_array_def)
  have ne: "data ?P \<noteq> []" unfolding hp using l by (auto simp: array1d_def)
  have dp: "ndim ?P = 1" using d by (simp add: ndim_def)
  obtain c where c: "cumulative_trapezoid lib ?P ?X = Inr c"
    using cumulative_trapezoid_1d [OF d ne] by blast
  have cr: "shape c = shape ?P" "wf_array c" "data c \<noteq> []"
    "length (data c) = length (data ?P)"
    using cumulative_trapezoid_1d_result [OF c dp d(1) d(4)] by simp_all
  have c1: "ndim c = 1" using cr(1) dp by (simp add: ndim_def)
  let ?c' = "\<lparr>shape = shape c, data = map (\<lambda>e. fdiv e (last (data c))) (data c)\<rparr>"
  let ?xa = "interp_call f ?c'"
  have n3: "3 \<le> length (data ?c')" using cr(4) l unfolding hp by (simp add: array1d_def)
  obtain g where g: "gradient ?c' ?xa = Inr g"
    using gradient_returns [of ?c' ?xa] c1 n3 by (auto simp: ndim_def interp_call_def)
  have t: "transform_pdf lib s x pdf =
       (Inr (Suc (length (heap s)), Suc (Suc (length (heap s)))),
        s\<lparr>heap := heap s @ [?c', ?xa, g]\<rparr>)"
    using transform_pdf_steps [OF c c1 cr(2,3) f] g by (simp add: Let_def)
  have "length (data c) = length ps" using cr(4) unfolding hp by (simp add: array1d_def)
  then show ?thesis using c g t unfolding hx hp by blast
qed

text \<open>
  C7, amended. Let \<open>transform_pdf\<close> be called on a fitted mapper with
  one-dimensional \<open>x\<close> and \<open>pdf\<close> of one length, at least three, \<open>x\<close> finite and
  non-decreasing, \<open>pdf\<close> finite and nowhere negative. Then no error is raised: the
  call returns the gradient of the normalised integral (the new array at the first
  free reference) along the transformed coordinates, and the differentiation reports
  no floating-point condition. At every index where two consecutive transformed
  coordinates are equal, the transformed coordinates not being all equal, the output
  entries at both of them are not-a-number; and when the transformed coordinates are
  all finite, the arithmetic of the gradient does signal a condition there (a division
  by zero or an invalid operation), which the error state of the program ignores.
  Nothing is said of an index where the transformed coordinates decrease, nor of the
  case where all of them are equal.
\<close>

theorem coinciding_coordinates_give_nan:
  assumes f: "cdf_map s = Some f"
    and hx: "heap s ! x = array1d xs" and hp: "heap s ! pdf = array1d ps"
    and l: "length xs = length ps" "3 \<le> length ps"
    and so: "sorted xs" and nn: "\<forall>p \<in> set ps. 0 \<le> p"
  shows "\<exists>x' p' s'. transform_pdf lib s x pdf = (Inr (x', p'), s') \<and>
     gradient (heap s' ! length (heap s)) (heap s' ! x') = Inr (heap s' ! p') \<and>
     differentiation_reports (heap s' ! length (heap s)) (heap s' ! x') = {} \<and>
     (\<forall>i. Suc i < length (data (heap s' ! x')) \<and>
          feq (data (heap s' ! x') ! i) (data (heap s' ! x') ! Suc i) \<and>
          (\<exists>k. Suc k < length (data (heap s' ! x')) \<and>
               \<not> feq (data (heap s' ! x') ! k) (data (heap s' ! x') ! Suc k)) \<longrightarrow>
          isnan (data (heap s' ! p') ! i) \<and> isnan (data (heap s' ! p') ! Suc i) \<and>
          ((\<forall>e \<in> set (data (heap s' ! x')). isfinite e) \<longrightarrow>
             gradient_raised (heap s' ! length (heap s)) (heap s' ! x') \<noteq> {}))"
proof -
  obtain c g where c: "cumulative_trapezoid lib (array1d ps) (array1d xs) = Inr c"
    and lc: "length (data c) = length ps"
    and g: "gradient \<lparr>shape = shape c, data = map (\<lambda>e. fdiv e (last (data c))) (data c)\<rparr>
       (interp_call f \<lparr>shape = shape c, data = map (\<lambda>e. fdiv e (last (data c))) (data c)\<rparr>)
       = Inr g"
    and t: "transform_pdf lib s x pdf =
       (Inr (Suc (length (heap s)), Suc (Suc (length (heap s)))),
        s\<lparr>heap := heap s @
          [\<lparr>shape = shape c, data = map (\<lambda>e. fdiv e (last (data c))) (data c)\<rparr>,
           interp_call f \<lparr>shape = shape c, data = map (\<lambda>e. fdiv e (last (data c))) (data c)\<rparr>,
           g]\<rparr>)"
    using transform_pdf_differentiates [OF f hx hp l] by blast
  let ?c' = "\<lparr>shape = shape c, data = map (\<lambda>e. fdiv e (last (data c))) (data c)\<rparr>"
  let ?xa = "interp_call f ?c'"
  let ?s' = "s\<lparr>heap := heap s @ [?c', ?xa, g]\<rparr>"
  let ?x' = "Suc (length (heap s))" and ?p' = "Suc (Suc (length (heap s)))"
  have hc: "heap ?s' ! length (heap s) = ?c'" by simp
  have hxa: "heap ?s' ! ?x' = ?xa" by (simp add: nth_append)
  have hg: "heap ?s' ! ?p' = g" by (simp add: nth_append)
  have pne: "ps \<noteq> []" using l by auto
  have cn: "\<forall>e \<in> set (data ?c'). \<not> fless e (Fin 0)"
    using normalised_integral_not_negative [OF so nn l(1) pne c] by simp
  have gr: "data g = map (gradient_entry (get_spacing (diff (data ?xa))) (data ?c'))
      [0..<length (data ?c')]"
    using gradient_result [OF g] by simp
  have n3: "3 \<le> length (data ?c')" using lc l by simp
  have lx: "length (data ?xa) = length (data ?c')" by (simp add: interp_call_def)
  have main: "isnan (data g ! i) \<and> isnan (data g ! Suc i) \<and>
      ((\<forall>e \<in> set (data ?xa). isfinite e) \<longrightarrow> gradient_raised ?c' ?xa \<noteq> {})"
    if i: "Suc i < length (data ?xa)" and e: "feq (data ?xa ! i) (data ?xa ! Suc i)"
      and k: "Suc k < length (data ?xa)" "\<not> feq (data ?xa ! k) (data ?xa ! Suc k)" for i k
  proof -
    let ?d = "diff (data ?xa)"
    have sp: "get_spacing ?d = Nonuniform ?d" using spacing_not_uniform [OF i e k] .
    have ld: "length ?d = length (data ?c') - 1" using lx by (simp add: length_diff)
    have ic: "Suc i < length (data ?c')" using i lx by simp
    then have j: "i < length ?d" using ld by simp
    have dj: "is_zero (?d ! i) \<or> isnan (?d ! i)"
      using fsub_of_equal [OF e] i by (simp add: nth_diff)
    have a: "isnan (gradient_entry (Nonuniform ?d) (data ?c') i)"
      using gradient_entry_nan [OF n3 ld _ j dj _ cn, of i] ic by simp
    have b: "isnan (gradient_entry (Nonuniform ?d) (data ?c') (Suc i))"
      using gradient_entry_nan [OF n3 ld ic j dj _ cn] by simp
    have r: "(\<forall>e \<in> set (data ?xa). isfinite e) \<longrightarrow> gradient_raised ?c' ?xa \<noteq> {}"
      using gradient_raised_at_coinciding [OF lx [symmetric] _ i e k] by blast
    show ?thesis
      unfolding gr sp using a b r ic by simp
  qed
  have "transform_pdf lib s x pdf = (Inr (?x', ?p'), ?s') \<and>
     gradient (heap ?s' ! length (heap s)) (heap ?s' ! ?x') = Inr (heap ?s' ! ?p') \<and>
     differentiation_reports (heap ?s' ! length (heap s)) (heap ?s' ! ?x') = {} \<and>
     (\<forall>i. Suc i < length (data (heap ?s' ! ?x')) \<and>
          feq (data (heap ?s' ! ?x') ! i) (data (heap ?s' ! ?x') ! Suc i) \<and>
          (\<exists>k. Suc k < length (data (heap ?s' ! ?x')) \<and>
               \<not> feq (data (heap ?s' ! ?x') ! k) (data (heap ?s' ! ?x') ! Suc k)) \<longrightarrow>
          isnan (data (heap ?s' ! ?p') ! i) \<and> isnan (data (heap ?s' ! ?p') ! Suc i) \<and>
          ((\<forall>e \<in> set (data (heap ?s' ! ?x')). isfinite e) \<longrightarrow>
             gradient_raised (heap ?s' ! length (heap s)) (heap ?s' ! ?x') \<noteq> {}))"
    unfolding hc hxa hg using t g main differentiation_reports_nothing by blast
  then show ?thesis by blast
qed

lemma fit_flat_example:
  "fit_from_cdf linear_only
     (InversePIT [array1d [0, 1, 1, 2], array1d [0, 1 / 4, 3 / 4, 1],
                  array1d [0, 1, 2, 3], array1d [1, 1, 1, 1]]) 0 1 ''linear'' =
   (Inr (), example_flat)"
  by (simp add: class_defs lib_defs example_flat_def fin_eval isclose_def atol_def rtol_def
      fle_def)

lemma integral_of_ones_4:
  "cumulative_trapezoid linear_only (array1d [1, 1, 1, 1]) (array1d [0, 1, 2, 3]) =
     Inr (array1d [0, 1, 2, 3])"
  by (simp add: cumulative_trapezoid_def ndim_def array1d_def fin_eval)

lemma normalised_ones_4:
  "\<lparr>shape = shape (array1d [0, 1, 2, 3]),
     data = map (\<lambda>e. fdiv e (last (data (array1d [0, 1, 2, 3]))))
              (data (array1d [0, 1, 2, 3]))\<rparr>
   = array1d [0, 1 / 3, 2 / 3, 1]"
  by (simp add: array1d_def fin_eval)

lemma flat_coordinates:
  "interp_call (call_linear [Fin 0, Fin (1 / 4), Fin (3 / 4), Fin 1]
                            [Fin 0, Fin 1, Fin 1, Fin 2])
     (array1d [0, 1 / 3, 2 / 3, 1]) = array1d [0, 1, 1, 2]"
  by (simp add: interp_call_def call_linear_def searchsorted_def array1d_def fin_eval)

theorem coinciding_coordinates_give_nan_witness:
  "\<exists>x' p' s'. transform_pdf linear_only example_flat 2 3 = (Inr (x', p'), s') \<and>
      heap s' ! x' = array1d [0, 1, 1, 2] \<and>
      isnan (data (heap s' ! p') ! 1) \<and> isnan (data (heap s' ! p') ! 2) \<and>
      differentiation_reports (heap s' ! 4) (heap s' ! x') = {} \<and>
      gradient_raised (heap s' ! 4) (heap s' ! x') \<noteq> {}"
proof -
  let ?f = "call_linear [Fin 0, Fin (1 / 4), Fin (3 / 4), Fin 1] [Fin 0, Fin 1, Fin 1, Fin 2]"
  have f: "cdf_map example_flat = Some ?f" by (simp add: example_flat_def)
  have hx: "heap example_flat ! 2 = array1d [0, 1, 2, 3]"
    and hp: "heap example_flat ! 3 = array1d [1, 1, 1, 1]"
    and n: "length (heap example_flat) = 4"
    by (simp_all add: example_flat_def)
  have l: "length [0, 1, 2, 3 :: real] = length [1, 1, 1, 1 :: real]"
    "3 \<le> length [1, 1, 1, 1 :: real]" by simp_all
  have so: "sorted [0, 1, 2, 3 :: real]" by simp
  have nn: "\<forall>p \<in> set [1, 1, 1, 1 :: real]. 0 \<le> p" by simp
  obtain x' p' s' where
    r: "transform_pdf linear_only example_flat 2 3 = (Inr (x', p'), s')"
    and w: "differentiation_reports (heap s' ! 4) (heap s' ! x') = {}"
    and a: "\<forall>i. Suc i < length (data (heap s' ! x')) \<and>
          feq (data (heap s' ! x') ! i) (data (heap s' ! x') ! Suc i) \<and>
          (\<exists>k. Suc k < length (data (heap s' ! x')) \<and>
               \<not> feq (data (heap s' ! x') ! k) (data (heap s' ! x') ! Suc k)) \<longrightarrow>
          isnan (data (heap s' ! p') ! i) \<and> isnan (data (heap s' ! p') ! Suc i) \<and>
          ((\<forall>e \<in> set (data (heap s' ! x')). isfinite e) \<longrightarrow>
             gradient_raised (heap s' ! 4) (heap s' ! x') \<noteq> {})"
    using coinciding_coordinates_give_nan [OF f hx hp l so nn, of linear_only] unfolding n
    by blast
  have c: "cumulative_trapezoid linear_only (heap example_flat ! 3) (heap example_flat ! 2)
      = Inr (array1d [0, 1, 2, 3])"
    unfolding hx hp by (rule integral_of_ones_4)
  have c1: "ndim (array1d [0, 1, 2, 3]) = 1" "wf_array (array1d [0, 1, 2, 3])"
    "data (array1d [0, 1, 2, 3]) \<noteq> []"
    by (simp_all add: array1d_def ndim_def wf_array_def)
  have st: "transform_pdf linear_only example_flat 2 3 =
     (case gradient (array1d [0, 1 / 3, 2 / 3, 1]) (array1d [0, 1, 1, 2]) of
        Inl e \<Rightarrow> (Inl e, example_flat\<lparr>heap := heap example_flat @
                    [array1d [0, 1 / 3, 2 / 3, 1], array1d [0, 1, 1, 2]]\<rparr>)
      | Inr g \<Rightarrow> (Inr (Suc (length (heap example_flat)), Suc (Suc (length (heap example_flat)))),
                  example_flat\<lparr>heap := heap example_flat @
                    [array1d [0, 1 / 3, 2 / 3, 1], array1d [0, 1, 1, 2], g]\<rparr>))"
    using transform_pdf_steps [OF c c1 f]
    unfolding normalised_ones_4 Let_def flat_coordinates .
  have x: "heap s' ! x' = array1d [0, 1, 1, 2]"
    using r unfolding st
    by (cases "gradient (array1d [0, 1 / 3, 2 / 3, 1]) (array1d [0, 1, 1, 2])")
       (auto simp: nth_append)
  have e: "Suc 1 < length (data (heap s' ! x')) \<and>
      feq (data (heap s' ! x') ! 1) (data (heap s' ! x') ! Suc 1) \<and>
      (\<exists>k. Suc k < length (data (heap s' ! x')) \<and>
           \<not> feq (data (heap s' ! x') ! k) (data (heap s' ! x') ! Suc k))"
    unfolding x by (auto simp: array1d_def fin_eval intro!: exI [of _ 0])
  have fi: "\<forall>e \<in> set (data (heap s' ! x')). isfinite e"
    unfolding x by (simp add: array1d_def)
  from a e fi have "isnan (data (heap s' ! p') ! 1) \<and> isnan (data (heap s' ! p') ! Suc 1) \<and>
      gradient_raised (heap s' ! 4) (heap s' ! x') \<noteq> {}" by blast
  then have "isnan (data (heap s' ! p') ! 1) \<and> isnan (data (heap s' ! p') ! 2) \<and>
      gradient_raised (heap s' ! 4) (heap s' ! x') \<noteq> {}"
    by (simp add: numeral_2_eq_2)
  with r x w show ?thesis by blast
qed

section \<open>Fitting and transforming the same distribution\<close>




subsection \<open>Strictly increasing knots\<close>











end
